theory Spec2Isabelle
  imports Main "HOL-Library.Word"
begin

section \<open>JavaScript values\<close>

text \<open>
  The bridge service of \<^verbatim>\<open>src/chat/bridge.service.ts\<close> handles values of type
  \<^verbatim>\<open>any\<close>: client messages and parsed gateway frames. They are modelled as trees.
  \<open>JUndefined\<close> is the value of a missing property. Numbers are the integers (the only
  numbers the service computes with are the history limit and the timestamp).
\<close>

datatype json =
    JUndefined
  | JNull
  | JBool bool
  | JNum int
  | JStr string
  | JArr "json list"
  | JObj "(string \<times> json) list"

datatype error = TypeError | CryptoError | SendError | CloseError

text \<open>Truthiness, as \<^verbatim>\<open>!x\<close>, \<^verbatim>\<open>x || y\<close> and \<^verbatim>\<open>if (x)\<close> test it.\<close>

fun truthy :: "json \<Rightarrow> bool" where
  "truthy JUndefined = False"
| "truthy JNull = False"
| "truthy (JBool b) = b"
| "truthy (JNum n) = (n \<noteq> 0)"
| "truthy (JStr s) = (s \<noteq> [])"
| "truthy (JArr xs) = True"
| "truthy (JObj kvs) = True"

definition js_or :: "json \<Rightarrow> json \<Rightarrow> json" where
  "js_or a b = (if truthy a then a else b)"

fun nullish :: "json \<Rightarrow> bool" where
  "nullish JUndefined = True"
| "nullish JNull = True"
| "nullish v = False"

text \<open>
  \<open>property v k\<close> is \<^verbatim>\<open>v.k\<close> for a value that is neither null nor undefined: the property of
  an object, \<open>JUndefined\<close> when it is missing; primitives and arrays have none of the
  properties the service reads (type, event, ok, payload, error, nonce, delta, text,
  status, runId, limit). \<open>member v k\<close> is the read itself, which throws a TypeError on null
  and undefined; \<open>opt_member v k\<close> is \<^verbatim>\<open>v?.k\<close>.
\<close>

fun property :: "json \<Rightarrow> string \<Rightarrow> json" where
  "property (JObj kvs) k = (case map_of kvs k of None \<Rightarrow> JUndefined | Some v \<Rightarrow> v)"
| "property v k = JUndefined"

definition member :: "json \<Rightarrow> string \<Rightarrow> error + json" where
  "member v k = (if nullish v then Inl TypeError else Inr (property v k))"

definition opt_member :: "json \<Rightarrow> string \<Rightarrow> json" where
  "opt_member v k = (if nullish v then JUndefined else property v k)"

text \<open>\<^verbatim>\<open>String(n)\<close> for a non-negative integer: its decimal digits.\<close>

definition digit_char :: "nat \<Rightarrow> char" where
  "digit_char d = ''0123456789'' ! d"

fun String_nat :: "nat \<Rightarrow> string" where
  "String_nat n = (if n < 10 then [digit_char n]
                   else String_nat (n div 10) @ [digit_char (n mod 10)])"

declare String_nat.simps [simp del]

definition String_int :: "int \<Rightarrow> string" where
  "String_int i = (if i < 0 then CHR ''-'' # String_nat (nat (- i)) else String_nat (nat i))"

text \<open>
  \<^verbatim>\<open>Array.prototype.join\<close>: every element is converted to a string, null and undefined to
  the empty string, a nested array by joining it with commas. A number that is a safe
  integer (at most \<open>2 ^ 53\<close> in magnitude) is printed with its decimal digits. Beyond
  that JavaScript prints the shortest digits that denote the same double, in exponent
  form from \<open>10 ^ 21\<close> upward; this is the engine's and is taken as the parameter \<open>fmt\<close>.
\<close>

fun js_String :: "(int \<Rightarrow> string) \<Rightarrow> json \<Rightarrow> string"
  and join_elems :: "(int \<Rightarrow> string) \<Rightarrow> string \<Rightarrow> json list \<Rightarrow> string" where
  "js_String fmt JUndefined = ''undefined''"
| "js_String fmt JNull = ''null''"
| "js_String fmt (JBool b) = (if b then ''true'' else ''false'')"
| "js_String fmt (JNum n) = (if \<bar>n\<bar> \<le> 9007199254740992 then String_int n else fmt n)"
| "js_String fmt (JStr s) = s"
| "js_String fmt (JArr xs) = join_elems fmt '','' xs"
| "js_String fmt (JObj kvs) = ''[object Object]''"
| "join_elems fmt sep [] = []"
| "join_elems fmt sep [x] = (if nullish x then [] else js_String fmt x)"
| "join_elems fmt sep (x # y # ys) =
     (if nullish x then [] else js_String fmt x) @ sep @ join_elems fmt sep (y # ys)"

section \<open>Device identity and signatures\<close>

record DeviceIdentity =
  deviceId :: string
  publicKey :: string
  privateKey :: "8 word list"

text \<open>
  \<^verbatim>\<open>Buffer.toString('base64')\<close> followed by the three \<^verbatim>\<open>replace\<close> calls of
  \<^verbatim>\<open>signMessage\<close>: plus becomes minus, slash becomes underscore, and the padding at the end
  is removed.
\<close>

definition b64chars :: string where
  "b64chars = ''ABCDEFGHIJKLMNOPQRSTUVWXYZabcdefghijklmnopqrstuvwxyz0123456789+/''"

definition b64 :: "nat \<Rightarrow> char" where
  "b64 i = b64chars ! (i mod 64)"

fun base64 :: "8 word list \<Rightarrow> string" where
  "base64 [] = []"
| "base64 [a] =
     [b64 (unat a div 4), b64 ((unat a mod 4) * 16), CHR ''='', CHR ''='']"
| "base64 [a, b] =
     [b64 (unat a div 4), b64 ((unat a mod 4) * 16 + unat b div 16),
      b64 ((unat b mod 16) * 4), CHR ''='']"
| "base64 (a # b # c # rest) =
     [b64 (unat a div 4), b64 ((unat a mod 4) * 16 + unat b div 16),
      b64 ((unat b mod 16) * 4 + unat c div 64), b64 (unat c mod 64)] @ base64 rest"

definition replace_char :: "char \<Rightarrow> char \<Rightarrow> string \<Rightarrow> string" where
  "replace_char a b s = map (\<lambda>c. if c = a then b else c) s"

definition strip_padding :: "string \<Rightarrow> string" where
  "strip_padding s = rev (dropWhile (\<lambda>c. c = CHR ''='') (rev s))"

text \<open>What the first two \<^verbatim>\<open>replace\<close> calls make of one character.\<close>

definition urlsafe_char :: "char \<Rightarrow> char" where
  "urlsafe_char c = (if c = CHR ''/'' then CHR ''_'' else if c = CHR ''+'' then CHR ''-'' else c)"

definition base64url :: "8 word list \<Rightarrow> string" where
  "base64url bytes =
     strip_padding (replace_char CHR ''/'' CHR ''_'' (replace_char CHR ''+'' CHR ''-'' (base64 bytes)))"

section \<open>The state of the service\<close>

text \<open>
  A \<open>BridgeConnection\<close> is a mutable object that the map, the closures of the transport
  handlers and the local variables of the methods share, so the objects live in a store
  and are named by their address. \<open>ws\<close> and \<open>reconnectTimeout\<close> are references to a
  transport and a timer; \<open>onMessage\<close> is the identity of the callback closure.
\<close>

record BridgeConnection =
  ws :: "nat option"
  onMessage :: nat
  reconnectTimeout :: "nat option"
  authenticated :: bool
  messageQueue :: "json list"
  sessionKey :: "string option"

datatype ReadyState = CONNECTING | OPEN | CLOSING | CLOSED

text \<open>
  A transport is the \<^verbatim>\<open>WebSocket\<close> object made by \<^verbatim>\<open>connectToGateway\<close> together with the
  variables its handlers close over: the \<open>clientId\<close> argument and the local \<open>bridge\<close>.
\<close>

record Transport =
  readyState :: ReadyState
  ws_clientId :: string
  ws_bridge :: nat

datatype TimerState = Pending | Cleared | Fired

record Timeout =
  t_clientId :: string
  t_due :: nat
  t_state :: TimerState

text \<open>What the service does to the outside, in order.\<close>

datatype effect =
    Sent nat json
  | Callback nat json

text \<open>
  \<open>bridges\<close> is the \<^verbatim>\<open>Map<string, BridgeConnection>\<close>; its values are addresses into
  \<open>heap\<close>. \<open>crypto_sign\<close> stands for Node's \<^verbatim>\<open>crypto.sign\<close> with the imported private key
  (\<open>None\<close> when it throws), \<open>gatewayUrlOk\<close> for whether \<^verbatim>\<open>new WebSocket(url)\<close> accepts the
  configured address, \<open>closeThrows\<close> for the transports whose \<^verbatim>\<open>close()\<close> throws: the
  three are outside the repository, as is \<open>number_toString\<close>, the engine's string of a
  number that is not a safe integer. \<open>uuids\<close> counts the calls of \<^verbatim>\<open>uuidv4\<close>, \<open>now\<close> is
  \<^verbatim>\<open>Date.now()\<close>.
\<close>

record World =
  bridges :: "string \<rightharpoonup> nat"
  heap :: "nat \<Rightarrow> BridgeConnection"
  nextBridge :: nat
  sockets :: "nat \<Rightarrow> Transport"
  nextSocket :: nat
  timers :: "nat \<Rightarrow> Timeout"
  nextTimer :: nat
  effects :: "effect list"
  now :: nat
  uuids :: nat
  deviceIdentity :: "DeviceIdentity option"
  gatewayToken :: string
  gatewayUrlOk :: bool
  closeThrows :: "nat \<Rightarrow> bool"
  crypto_sign :: "8 word list \<Rightarrow> string \<Rightarrow> 8 word list option"
  number_toString :: "int \<Rightarrow> string"

datatype outcome = Return World | Throw error World

definition state_of :: "outcome \<Rightarrow> World" where
  "state_of r = (case r of Return w \<Rightarrow> w | Throw e w \<Rightarrow> w)"

definition update_bridge :: "nat \<Rightarrow> (BridgeConnection \<Rightarrow> BridgeConnection) \<Rightarrow> World \<Rightarrow> World" where
  "update_bridge b f w = w\<lparr>heap := (heap w)(b := f (heap w b))\<rparr>"

definition uuidv4 :: "World \<Rightarrow> string \<times> World" where
  "uuidv4 w = (''uuid-'' @ String_nat (uuids w), w\<lparr>uuids := Suc (uuids w)\<rparr>)"

subsection \<open>The transport library and the timers\<close>

text \<open>
  \<^verbatim>\<open>ws.send(data)\<close> throws while the socket is connecting, loses the data when the socket
  is closing or closed, and puts it on the wire when the socket is open.
\<close>

definition ws_send :: "nat \<Rightarrow> json \<Rightarrow> World \<Rightarrow> error + World" where
  "ws_send s frame w =
     (case readyState (sockets w s) of
        CONNECTING \<Rightarrow> Inl SendError
      | OPEN \<Rightarrow> Inr (w\<lparr>effects := effects w @ [Sent s frame]\<rparr>)
      | CLOSING \<Rightarrow> Inr w
      | CLOSED \<Rightarrow> Inr w)"

definition ws_close :: "nat \<Rightarrow> World \<Rightarrow> error + World" where
  "ws_close s w =
     (if closeThrows w s then Inl CloseError
      else case readyState (sockets w s) of
        CONNECTING \<Rightarrow> Inr (w\<lparr>sockets := (sockets w)(s := (sockets w s)\<lparr>readyState := CLOSING\<rparr>)\<rparr>)
      | OPEN \<Rightarrow> Inr (w\<lparr>sockets := (sockets w)(s := (sockets w s)\<lparr>readyState := CLOSING\<rparr>)\<rparr>)
      | CLOSING \<Rightarrow> Inr w
      | CLOSED \<Rightarrow> Inr w)"

definition clearTimeout :: "nat \<Rightarrow> World \<Rightarrow> World" where
  "clearTimeout t w =
     (if t_state (timers w t) = Pending
      then w\<lparr>timers := (timers w)(t := (timers w t)\<lparr>t_state := Cleared\<rparr>)\<rparr>
      else w)"

definition setTimeout :: "string \<Rightarrow> nat \<Rightarrow> World \<Rightarrow> nat \<times> World" where
  "setTimeout clientId delay w =
     (nextTimer w,
      w\<lparr>timers := (timers w)(nextTimer w :=
            \<lparr>t_clientId = clientId, t_due = now w + delay, t_state = Pending\<rparr>),
        nextTimer := Suc (nextTimer w)\<rparr>)"

section \<open>The bridge service\<close>

text \<open>The calls of the logger change nothing and are left out.\<close>

definition invoke_onMessage :: "nat \<Rightarrow> json \<Rightarrow> World \<Rightarrow> World" where
  "invoke_onMessage b notification w =
     w\<lparr>effects := effects w @ [Callback (onMessage (heap w b)) notification]\<rparr>"

definition closeBridge :: "string \<Rightarrow> World \<Rightarrow> outcome" where
  "closeBridge clientId w =
     (case bridges w clientId of
        None \<Rightarrow> Return w
      | Some b \<Rightarrow>
          let w1 = (case reconnectTimeout (heap w b) of
                      None \<Rightarrow> w
                    | Some t \<Rightarrow> clearTimeout t w);
              w2 = (case ws (heap w1 b) of
                      None \<Rightarrow> w1
                    | Some s \<Rightarrow> (case ws_close s w1 of Inl e \<Rightarrow> w1 | Inr w' \<Rightarrow> w'))
          in Return (w2\<lparr>bridges := (bridges w2)(clientId := None)\<rparr>))"

definition connectToGateway :: "string \<Rightarrow> World \<Rightarrow> World" where
  "connectToGateway clientId w =
     (case bridges w clientId of
        None \<Rightarrow> w
      | Some b \<Rightarrow>
          if \<not> gatewayUrlOk w then w
          else
            let s = nextSocket w;
                w1 = w\<lparr>sockets := (sockets w)(s :=
                          \<lparr>readyState = CONNECTING, ws_clientId = clientId, ws_bridge = b\<rparr>),
                       nextSocket := Suc s\<rparr>
            in update_bridge b (\<lambda>bridge. bridge\<lparr>ws := Some s\<rparr>) w1)"

definition createBridge :: "string \<Rightarrow> nat \<Rightarrow> World \<Rightarrow> outcome" where
  "createBridge clientId cb w =
     (case (if bridges w clientId \<noteq> None then closeBridge clientId w else Return w) of
        Throw e w' \<Rightarrow> Throw e w'
      | Return w1 \<Rightarrow>
          let b = nextBridge w1;
              bridge = \<lparr>ws = None, onMessage = cb, reconnectTimeout = None,
                        authenticated = False, messageQueue = [], sessionKey = None\<rparr>;
              w2 = w1\<lparr>heap := (heap w1)(b := bridge), nextBridge := Suc b,
                      bridges := (bridges w1)(clientId \<mapsto> b)\<rparr>
          in Return (connectToGateway clientId w2))"

text \<open>The handlers that \<^verbatim>\<open>connectToGateway\<close> installs on the transport \<open>s\<close>.\<close>

definition on_open :: "nat \<Rightarrow> World \<Rightarrow> World" where
  "on_open s w = update_bridge (ws_bridge (sockets w s)) (\<lambda>bridge. bridge\<lparr>ws := Some s\<rparr>) w"

definition reconnect_timer :: "nat \<Rightarrow> World \<Rightarrow> World" where
  "reconnect_timer t w =
     (let clientId = t_clientId (timers w t)
      in if bridges w clientId \<noteq> None then connectToGateway clientId w else w)"

definition on_close :: "nat \<Rightarrow> World \<Rightarrow> World" where
  "on_close s w =
     (let clientId = ws_clientId (sockets w s);
          b = ws_bridge (sockets w s);
          w1 = update_bridge b (\<lambda>bridge. bridge\<lparr>ws := None\<rparr>) w;
          w2 = update_bridge b (\<lambda>bridge. bridge\<lparr>authenticated := False\<rparr>) w1
      in if bridges w2 clientId \<noteq> None
         then (let (t, w3) = setTimeout clientId 5000 w2
               in update_bridge b (\<lambda>bridge. bridge\<lparr>reconnectTimeout := Some t\<rparr>) w3)
         else w2)"

definition on_error :: "nat \<Rightarrow> World \<Rightarrow> World" where
  "on_error s w = w"

definition signMessage :: "string \<Rightarrow> World \<Rightarrow> error + string" where
  "signMessage message w =
     (case deviceIdentity w of
        None \<Rightarrow> Inl CryptoError
      | Some dev \<Rightarrow>
          (case crypto_sign w (privateKey dev) message of
             None \<Rightarrow> Inl CryptoError
           | Some signature \<Rightarrow> Inr (base64url signature)))"

definition sendRaw :: "string \<Rightarrow> json \<Rightarrow> World \<Rightarrow> World" where
  "sendRaw clientId message w =
     (case bridges w clientId of
        None \<Rightarrow> w
      | Some b \<Rightarrow>
          (case ws (heap w b) of
             None \<Rightarrow> w
           | Some s \<Rightarrow>
               if readyState (sockets w s) \<noteq> OPEN then w
               else (case ws_send s message w of Inl e \<Rightarrow> w | Inr w' \<Rightarrow> w')))"

text \<open>\<^verbatim>\<open>bridge?.sessionKey || 'main'\<close>, for the bridge that the map holds for \<open>clientId\<close>.\<close>

definition sessionKey_or_main :: "string \<Rightarrow> World \<Rightarrow> string" where
  "sessionKey_or_main clientId w =
     (case bridges w clientId of
        None \<Rightarrow> ''main''
      | Some b \<Rightarrow> (case sessionKey (heap w b) of
                     None \<Rightarrow> ''main''
                   | Some k \<Rightarrow> if k = [] then ''main'' else k))"

definition convertToGatewayFormat :: "string \<Rightarrow> json \<Rightarrow> World \<Rightarrow> error + (json \<times> World)" where
  "convertToGatewayFormat clientId message w =
     (let key = sessionKey_or_main clientId w
      in if nullish message then Inl TypeError
         else if property message ''type'' = JStr ''message'' \<and> truthy (property message ''text'')
         then (let (reqId, w1) = uuidv4 w
               in Inr (JObj [(''type'', JStr ''req''), (''id'', JStr reqId),
                             (''method'', JStr ''agent''),
                             (''params'', JObj [(''message'', property message ''text''),
                                                (''sessionKey'', JStr key),
                                                (''idempotencyKey'', JStr reqId)])], w1))
         else if property message ''type'' = JStr ''history''
         then (let (reqId, w1) = uuidv4 w
               in Inr (JObj [(''type'', JStr ''req''), (''id'', JStr reqId),
                             (''method'', JStr ''sessions.history''),
                             (''params'', JObj [(''sessionKey'', JStr key),
                                                (''limit'', js_or (property message ''limit'') (JNum 50))])], w1))
         else Inr (message, w))"

definition push_message :: "nat \<Rightarrow> json \<Rightarrow> World \<Rightarrow> World" where
  "push_message b message w =
     update_bridge b (\<lambda>bridge. bridge\<lparr>messageQueue := messageQueue bridge @ [message]\<rparr>) w"

definition sendMessage :: "string \<Rightarrow> json \<Rightarrow> World \<Rightarrow> outcome" where
  "sendMessage clientId message w =
     (case bridges w clientId of
        None \<Rightarrow> Return w
      | Some b \<Rightarrow>
          if \<not> authenticated (heap w b) then Return (push_message b message w)
          else (case ws (heap w b) of
                  None \<Rightarrow> Return (push_message b message w)
                | Some s \<Rightarrow>
                    if readyState (sockets w s) \<noteq> OPEN then Return (push_message b message w)
                    else (case convertToGatewayFormat clientId message w of
                            Inl e \<Rightarrow> Throw e w
                          | Inr (gatewayMessage, w1) \<Rightarrow>
                              (case ws_send s gatewayMessage w1 of
                                 Inl e \<Rightarrow> Return w1
                               | Inr w2 \<Rightarrow> Return w2))))"

definition connect_scopes :: "json list" where
  "connect_scopes = [JStr ''operator.read'', JStr ''operator.write'']"

definition signaturePayload ::
  "(int \<Rightarrow> string) \<Rightarrow> DeviceIdentity \<Rightarrow> nat \<Rightarrow> string \<Rightarrow> json \<Rightarrow> string" where
  "signaturePayload fmt dev signedAt token nonce =
     join_elems fmt ''|''
       [JStr ''v2'', JStr (deviceId dev), JStr ''cli'', JStr ''cli'', JStr ''operator'',
        JStr (join_elems fmt '','' connect_scopes), JStr (String_nat signedAt),
        js_or (JStr token) (JStr ''''), nonce]"

definition connectRequest :: "string \<Rightarrow> DeviceIdentity \<Rightarrow> string \<Rightarrow> string \<Rightarrow> nat \<Rightarrow> json \<Rightarrow> json" where
  "connectRequest reqId dev token signature signedAt nonce =
     JObj [(''type'', JStr ''req''), (''id'', JStr reqId), (''method'', JStr ''connect''),
           (''params'', JObj
              [(''minProtocol'', JNum 3), (''maxProtocol'', JNum 3),
               (''client'', JObj [(''id'', JStr ''cli''), (''version'', JStr ''1.0.0''),
                                  (''platform'', JStr ''linux''), (''mode'', JStr ''cli'')]),
               (''role'', JStr ''operator''),
               (''scopes'', JArr connect_scopes),
               (''caps'', JArr []), (''commands'', JArr []), (''permissions'', JObj []),
               (''auth'', JObj [(''token'', JStr token)]),
               (''locale'', JStr ''en-US''),
               (''userAgent'', JStr ''openclaw-face-bridge/1.0.0''),
               (''device'', JObj [(''id'', JStr (deviceId dev)),
                                  (''publicKey'', JStr (publicKey dev)),
                                  (''signature'', JStr signature),
                                  (''signedAt'', JNum (int signedAt)),
                                  (''nonce'', nonce)])])]"

definition handleConnectChallenge :: "string \<Rightarrow> json \<Rightarrow> World \<Rightarrow> outcome" where
  "handleConnectChallenge clientId payload w =
     (case bridges w clientId of
        None \<Rightarrow> Return w
      | Some b \<Rightarrow>
          (case ws (heap w b) of
             None \<Rightarrow> Return w
           | Some s \<Rightarrow>
               (case deviceIdentity w of
                  None \<Rightarrow> Return w
                | Some dev \<Rightarrow>
                    let signedAt = now w
                    in (case member payload ''nonce'' of
                          Inl e \<Rightarrow> Throw e w
                        | Inr nonce \<Rightarrow>
                            (case signMessage
                                    (signaturePayload (number_toString w) dev signedAt
                                       (gatewayToken w) nonce) w of
                               Inl e \<Rightarrow> Return w
                             | Inr signature \<Rightarrow>
                                 let (reqId, w1) = uuidv4 w
                                 in Return (sendRaw clientId
                                      (connectRequest reqId dev (gatewayToken w) signature signedAt nonce)
                                      w1))))))"

text \<open>
  The loop of \<^verbatim>\<open>handleConnectSuccess\<close>: while the queue of the bridge \<open>b\<close> is not empty,
  shift its first message and hand it to \<^verbatim>\<open>sendMessage\<close>. \<^verbatim>\<open>sendMessage\<close> may put the
  message back, so the loop need not end: \<open>None\<close> is the run that never returns.
\<close>

partial_function (option) drainQueue :: "string \<Rightarrow> nat \<Rightarrow> World \<Rightarrow> outcome option" where
  "drainQueue clientId b w =
     (case messageQueue (heap w b) of
        [] \<Rightarrow> Some (Return w)
      | queuedMsg # rest \<Rightarrow>
          (case sendMessage clientId queuedMsg
                  (update_bridge b (\<lambda>bridge. bridge\<lparr>messageQueue := rest\<rparr>) w) of
             Throw e w' \<Rightarrow> Some (Throw e w')
           | Return w' \<Rightarrow> drainQueue clientId b w'))"

declare drainQueue.simps [code]

definition connected_notification :: json where
  "connected_notification =
     JObj [(''type'', JStr ''gateway_connected''),
           (''payload'', JObj [(''status'', JStr ''connected'')])]"

definition handleConnectSuccess :: "string \<Rightarrow> json \<Rightarrow> World \<Rightarrow> outcome option" where
  "handleConnectSuccess clientId payload w =
     (case bridges w clientId of
        None \<Rightarrow> Some (Return w)
      | Some b \<Rightarrow>
          (case drainQueue clientId b
                  (update_bridge b (\<lambda>bridge. bridge\<lparr>authenticated := True\<rparr>) w) of
             None \<Rightarrow> None
           | Some (Throw e w') \<Rightarrow> Some (Throw e w')
           | Some (Return w') \<Rightarrow> Some (Return (invoke_onMessage b connected_notification w'))))"

definition handleAgentEvent :: "string \<Rightarrow> json \<Rightarrow> World \<Rightarrow> outcome" where
  "handleAgentEvent clientId payload w =
     (case bridges w clientId of
        None \<Rightarrow> Return w
      | Some b \<Rightarrow>
          (case member payload ''delta'' of
             Inl e \<Rightarrow> Throw e w
           | Inr delta \<Rightarrow>
               if truthy (opt_member delta ''text'')
               then Return (invoke_onMessage b
                      (JObj [(''type'', JStr ''response''),
                             (''content'', property delta ''text''),
                             (''streaming'', JBool True),
                             (''runId'', property payload ''runId'')]) w)
               else if property payload ''status'' = JStr ''completed''
                     \<or> property payload ''status'' = JStr ''done''
               then Return (invoke_onMessage b
                      (JObj [(''type'', JStr ''response_complete''),
                             (''runId'', property payload ''runId'')]) w)
               else Return w))"

definition ignoredEvents :: "json list" where
  "ignoredEvents = [JStr ''tick'', JStr ''health'', JStr ''presence'', JStr ''heartbeat'',
                    JStr ''shutdown'']"

definition handleGatewayMessage :: "string \<Rightarrow> json \<Rightarrow> World \<Rightarrow> outcome option" where
  "handleGatewayMessage clientId message w =
     (case bridges w clientId of
        None \<Rightarrow> Some (Return w)
      | Some b \<Rightarrow>
          (case member message ''type'' of
             Inl e \<Rightarrow> Some (Throw e w)
           | Inr type \<Rightarrow>
               if type = JStr ''event'' \<and> property message ''event'' = JStr ''connect.challenge''
               then Some (handleConnectChallenge clientId (property message ''payload'') w)
               else if type = JStr ''res'' \<and> truthy (property message ''ok'')
                       \<and> opt_member (property message ''payload'') ''type'' = JStr ''hello-ok''
               then handleConnectSuccess clientId (property message ''payload'') w
               else if type = JStr ''res'' \<and> \<not> truthy (property message ''ok'')
               then Some (Return (invoke_onMessage b
                      (JObj [(''type'', JStr ''error''), (''error'', property message ''error'')]) w))
               else if type = JStr ''event'' \<and> property message ''event'' = JStr ''agent''
               then Some (handleAgentEvent clientId (property message ''payload'') w)
               else if type = JStr ''event'' \<and> property message ''event'' = JStr ''chat''
               then Some (Return (invoke_onMessage b (property message ''payload'') w))
               else if type = JStr ''event''
                       \<and> js_or (property message ''event'') (JStr '''') \<in> set ignoredEvents
               then Some (Return w)
               else if type = JStr ''res''
               then Some (Return (invoke_onMessage b message w))
               else Some (Return w)))"

text \<open>
  The message handler of the transport \<open>s\<close>. \<open>parsed\<close> is the result of
  \<^verbatim>\<open>JSON.parse(data.toString())\<close>; the handler catches whatever is thrown.
\<close>

definition on_message :: "nat \<Rightarrow> error + json \<Rightarrow> World \<Rightarrow> World option" where
  "on_message s parsed w =
     (case parsed of
        Inl e \<Rightarrow> Some w
      | Inr message \<Rightarrow>
          (case handleGatewayMessage (ws_clientId (sockets w s)) message w of
             None \<Rightarrow> None
           | Some r \<Rightarrow> Some (state_of r)))"

section \<open>Runs of the service\<close>

text \<open>
  The service runs on one event loop: the calls of its three public methods, the events
  of the transports and the timers come one after the other. A transport opens once,
  while it is connecting; it delivers frames while it is open or closing (a frame already
  on its way arrives after \<^verbatim>\<open>close()\<close> was called); an error makes it closing; it closes
  once, and is silent afterwards. A timer fires once, when it is pending and due.
\<close>

datatype event =
    CreateBridge string nat
  | SendMessage string json
  | CloseBridge string
  | WsOpen nat
  | WsMessage nat "error + json"
  | WsError nat
  | WsClose nat
  | Advance nat
  | TimerFire nat

definition set_readyState :: "nat \<Rightarrow> ReadyState \<Rightarrow> World \<Rightarrow> World" where
  "set_readyState s r w = w\<lparr>sockets := (sockets w)(s := (sockets w s)\<lparr>readyState := r\<rparr>)\<rparr>"

fun enabled :: "event \<Rightarrow> World \<Rightarrow> bool" where
  "enabled (CreateBridge c cb) w = True"
| "enabled (SendMessage c m) w = True"
| "enabled (CloseBridge c) w = True"
| "enabled (WsOpen s) w = (s < nextSocket w \<and> readyState (sockets w s) = CONNECTING)"
| "enabled (WsMessage s parsed) w =
     (s < nextSocket w \<and> (readyState (sockets w s) = OPEN \<or> readyState (sockets w s) = CLOSING))"
| "enabled (WsError s) w = (s < nextSocket w \<and> readyState (sockets w s) \<noteq> CLOSED)"
| "enabled (WsClose s) w = (s < nextSocket w \<and> readyState (sockets w s) \<noteq> CLOSED)"
| "enabled (Advance d) w = True"
| "enabled (TimerFire t) w =
     (t < nextTimer w \<and> t_state (timers w t) = Pending \<and> t_due (timers w t) \<le> now w)"

fun fire :: "event \<Rightarrow> World \<Rightarrow> World option" where
  "fire (CreateBridge c cb) w = Some (state_of (createBridge c cb w))"
| "fire (SendMessage c m) w = Some (state_of (sendMessage c m w))"
| "fire (CloseBridge c) w = Some (state_of (closeBridge c w))"
| "fire (WsOpen s) w = Some (on_open s (set_readyState s OPEN w))"
| "fire (WsMessage s parsed) w = on_message s parsed w"
| "fire (WsError s) w = Some (on_error s (set_readyState s CLOSING w))"
| "fire (WsClose s) w = Some (on_close s (set_readyState s CLOSED w))"
| "fire (Advance d) w = Some (w\<lparr>now := now w + d\<rparr>)"
| "fire (TimerFire t) w =
     Some (reconnect_timer t (w\<lparr>timers := (timers w)(t := (timers w t)\<lparr>t_state := Fired\<rparr>)\<rparr>))"

text \<open>
  A run is a list of events, each enabled where it happens. \<open>None\<close>: an event was not
  enabled, or a handler did not return.
\<close>

fun run :: "event list \<Rightarrow> World \<Rightarrow> World option" where
  "run [] w = Some w"
| "run (e # es) w =
     (if enabled e w then (case fire e w of None \<Rightarrow> None | Some w' \<Rightarrow> run es w') else None)"

text \<open>The service after \<^verbatim>\<open>onModuleInit\<close>, before any client.\<close>

definition init ::
  "DeviceIdentity \<Rightarrow> string \<Rightarrow> (8 word list \<Rightarrow> string \<Rightarrow> 8 word list option) \<Rightarrow>
   (int \<Rightarrow> string) \<Rightarrow> World" where
  "init dev token signer fmt =
     \<lparr>bridges = Map.empty,
      heap = (\<lambda>b. \<lparr>ws = None, onMessage = 0, reconnectTimeout = None, authenticated = False,
                    messageQueue = [], sessionKey = None\<rparr>),
      nextBridge = 0,
      sockets = (\<lambda>s. \<lparr>readyState = CLOSED, ws_clientId = [], ws_bridge = 0\<rparr>),
      nextSocket = 0,
      timers = (\<lambda>t. \<lparr>t_clientId = [], t_due = 0, t_state = Cleared\<rparr>),
      nextTimer = 0,
      effects = [],
      now = 0,
      uuids = 0,
      deviceIdentity = Some dev,
      gatewayToken = token,
      gatewayUrlOk = True,
      closeThrows = (\<lambda>s. False),
      crypto_sign = signer,
      number_toString = fmt\<rparr>"



section \<open>Example values\<close>

definition example_device :: DeviceIdentity where
  "example_device = \<lparr>deviceId = ''d1'', publicKey = ''pk'', privateKey = [1, 2, 3]\<rparr>"

definition example_world :: World where
  "example_world = init example_device ''tok'' (\<lambda>key message. Some [255, 0, 17]) String_int"

definition hello_ok :: json where
  "hello_ok = JObj [(''type'', JStr ''res''), (''ok'', JBool True),
                    (''payload'', JObj [(''type'', JStr ''hello-ok'')])]"

definition rejection :: json where
  "rejection = JObj [(''type'', JStr ''res''), (''ok'', JBool False), (''error'', JStr ''denied'')]"

definition challenge :: json where
  "challenge = JObj [(''type'', JStr ''event''), (''event'', JStr ''connect.challenge''),
                     (''payload'', JObj [(''nonce'', JStr ''abc''), (''ts'', JNum 1000)])]"

definition tick :: json where
  "tick = JObj [(''type'', JStr ''event''), (''event'', JStr ''tick'')]"

definition agent_delta :: json where
  "agent_delta = JObj [(''type'', JStr ''event''), (''event'', JStr ''agent''),
                       (''payload'', JObj [(''delta'', JObj [(''text'', JStr ''hi'')]),
                                           (''runId'', JStr ''r1'')])]"

definition agent_done :: json where
  "agent_done = JObj [(''type'', JStr ''event''), (''event'', JStr ''agent''),
                      (''payload'', JObj [(''status'', JStr ''done''), (''runId'', JStr ''r1'')])]"

definition agent_other :: json where
  "agent_other = JObj [(''type'', JStr ''event''), (''event'', JStr ''agent''),
                       (''payload'', JObj [(''status'', JStr ''running''), (''runId'', JStr ''r1'')])]"

definition history_message :: "int \<Rightarrow> json" where
  "history_message n = JObj [(''type'', JStr ''history''), (''limit'', JNum n)]"

definition text_message :: "string \<Rightarrow> json" where
  "text_message t = JObj [(''type'', JStr ''message''), (''text'', JStr t)]"

definition after :: "event list \<Rightarrow> World \<Rightarrow> World" where
  "after es w = (case run es w of None \<Rightarrow> w | Some w' \<Rightarrow> w')"

text \<open>
  The client \<open>c1\<close> with the callback 7, its transport 0 open: before the handshake, and
  after it.
\<close>

definition open_world :: World where
  "open_world = after [CreateBridge ''c1'' 7, WsOpen 0] example_world"

definition authenticated_world :: World where
  "authenticated_world =
     after [CreateBridge ''c1'' 7, WsOpen 0, WsMessage 0 (Inr hello_ok)] example_world"

text \<open>Reading one object of a state.\<close>

definition bridge_at :: "nat \<Rightarrow> World \<Rightarrow> BridgeConnection" where
  "bridge_at b w = heap w b"

definition transport_at :: "nat \<Rightarrow> World \<Rightarrow> Transport" where
  "transport_at s w = sockets w s"

definition timer_at :: "nat \<Rightarrow> World \<Rightarrow> Timeout" where
  "timer_at t w = timers w t"

text \<open>
  The session of c1 is replaced while its transport 0 is open: the new bridge is the
  object 1, with the callback 8 and the transport 1, which is still connecting. The
  transport 0 is closing.
\<close>

definition replaced_world :: World where
  "replaced_world =
     after [CreateBridge ''c1'' 7, WsOpen 0, CloseBridge ''c1'', CreateBridge ''c1'' 8] example_world"

text \<open>The session of c1 is closed while its transport 0 is open.\<close>

definition closed_world :: World where
  "closed_world = after [CreateBridge ''c1'' 7, WsOpen 0, CloseBridge ''c1''] example_world"

section \<open>Basic facts\<close>

lemmas service_defs =
  createBridge_def closeBridge_def connectToGateway_def on_open_def on_close_def on_error_def
  reconnect_timer_def sendMessage_def push_message_def convertToGatewayFormat_def
  sessionKey_or_main_def handleConnectSuccess_def handleGatewayMessage_def handleAgentEvent_def
  handleConnectChallenge_def sendRaw_def signMessage_def on_message_def invoke_onMessage_def
  update_bridge_def uuidv4_def ws_send_def ws_close_def clearTimeout_def setTimeout_def
  set_readyState_def state_of_def member_def opt_member_def js_or_def init_def
  ignoredEvents_def connected_notification_def

lemmas example_defs =
  example_world_def example_device_def hello_ok_def rejection_def challenge_def tick_def
  agent_delta_def agent_done_def agent_other_def history_message_def text_message_def
  after_def open_world_def authenticated_world_def replaced_world_def closed_world_def
  bridge_at_def transport_at_def timer_at_def

lemma drainQueue_Nil:
  "messageQueue (heap w b) = [] \<Longrightarrow> drainQueue c b w = Some (Return w)"
  by (subst drainQueue.simps) simp

lemma drainQueue_Cons:
  "messageQueue (heap w b) = m # rest \<Longrightarrow>
   drainQueue c b w =
     (case sendMessage c m (update_bridge b (\<lambda>bridge. bridge\<lparr>messageQueue := rest\<rparr>) w) of
        Throw e w' \<Rightarrow> Some (Throw e w')
      | Return w' \<Rightarrow> drainQueue c b w')"
  by (subst drainQueue.simps) simp

lemma nullish_property: "nullish v \<Longrightarrow> property v k = JUndefined"
  by (cases v) simp_all

lemma property_not_nullish: "property v k = JStr x \<Longrightarrow> \<not> nullish v"
  by (cases v) simp_all

lemma open_world_facts:
  "bridges open_world ''c1'' = Some 0"
  "\<not> authenticated (heap open_world 0)"
  "ws (heap open_world 0) = Some 0"
  "readyState (sockets open_world 0) = OPEN"
  "ws_clientId (sockets open_world 0) = ''c1''"
  "messageQueue (heap open_world 0) = []"
  "onMessage (heap open_world 0) = 7"
  "effects open_world = []"
  "uuids open_world = 0"
  "now open_world = 0"
  "gatewayToken open_world = ''tok''"
  "deviceIdentity open_world = Some example_device"
  "sessionKey_or_main ''c1'' open_world = ''main''"
  by (simp_all add: example_defs service_defs Let_def)

lemma authenticated_world_facts:
  "bridges authenticated_world ''c1'' = Some 0"
  "authenticated (heap authenticated_world 0)"
  "ws (heap authenticated_world 0) = Some 0"
  "readyState (sockets authenticated_world 0) = OPEN"
  "messageQueue (heap authenticated_world 0) = []"
  "onMessage (heap authenticated_world 0) = 7"
  "effects authenticated_world = [Callback 7 connected_notification]"
  "uuids authenticated_world = 0"
  "sessionKey_or_main ''c1'' authenticated_world = ''main''"
  by (simp_all add: example_defs service_defs drainQueue_Nil Let_def)

lemma String_nat_0: "String_nat 0 = ''0''"
  by (simp add: String_nat.simps digit_char_def)

section \<open>The history limit\<close>

text \<open>
  C10. A history message sent on an authenticated bridge whose transport is open makes
  one \<^verbatim>\<open>sessions.history\<close> request. Its \<^verbatim>\<open>params.limit\<close> is the limit of the message when
  that is truthy, and 50 otherwise: when the limit is missing, null, 0, the empty string
  or false.
\<close>

theorem history_limit_default:
  assumes "bridges w c = Some b" and "authenticated (heap w b)"
    and "ws (heap w b) = Some s" and "readyState (sockets w s) = OPEN"
    and "property message ''type'' = JStr ''history''"
  shows "sendMessage c message w =
     Return (w\<lparr>uuids := Suc (uuids w),
              effects := effects w @
                [Sent s (JObj [(''type'', JStr ''req''),
                               (''id'', JStr (''uuid-'' @ String_nat (uuids w))),
                               (''method'', JStr ''sessions.history''),
                               (''params'', JObj [(''sessionKey'', JStr (sessionKey_or_main c w)),
                                  (''limit'', if truthy (property message ''limit'')
                                              then property message ''limit'' else JNum 50)])])]\<rparr>)"
proof -
  have "\<not> nullish message"
    using assms(5) by (rule property_not_nullish)
  then show ?thesis
    using assms
    by (simp add: sendMessage_def convertToGatewayFormat_def uuidv4_def ws_send_def js_or_def
        Let_def)
qed

theorem history_limit_default_witness:
  "effects (state_of (sendMessage ''c1'' (history_message 0) authenticated_world)) =
     effects authenticated_world @
       [Sent 0 (JObj [(''type'', JStr ''req''), (''id'', JStr ''uuid-0''),
                      (''method'', JStr ''sessions.history''),
                      (''params'', JObj [(''sessionKey'', JStr ''main''), (''limit'', JNum 50)])])]"
proof -
  have "property (history_message 0) ''type'' = JStr ''history''"
    by (simp add: history_message_def)
  from history_limit_default [OF authenticated_world_facts(1-4) this]
  show ?thesis
    by (simp add: authenticated_world_facts state_of_def history_message_def String_nat_0)
qed

section \<open>The event router\<close>

text \<open>
  C7. An inbound frame of type event whose name is in the ignore set (tick, health,
  presence, heartbeat, shutdown), or is not one of connect.challenge, agent and chat,
  leaves the state as it is: the callback is not invoked. An inbound frame of type res
  whose ok is false (or any other falsy value) invokes the callback of the bridge
  registered for the client once, with the notification made of the type error and the
  error of the frame.
\<close>

theorem gateway_frame_classification:
  "(property message ''type'' = JStr ''event'' \<and>
      (property message ''event'' \<in> set ignoredEvents \<or>
       property message ''event'' \<notin> {JStr ''connect.challenge'', JStr ''agent'', JStr ''chat''})
      \<longrightarrow> handleGatewayMessage c message w = Some (Return w)) \<and>
   (bridges w c = Some b \<and> property message ''type'' = JStr ''res''
      \<and> \<not> truthy (property message ''ok'')
      \<longrightarrow> handleGatewayMessage c message w =
            Some (Return (w\<lparr>effects := effects w @
              [Callback (onMessage (heap w b))
                 (JObj [(''type'', JStr ''error''), (''error'', property message ''error'')])]\<rparr>)))"
proof (intro conjI impI)
  assume a: "property message ''type'' = JStr ''event'' \<and>
      (property message ''event'' \<in> set ignoredEvents \<or>
       property message ''event'' \<notin> {JStr ''connect.challenge'', JStr ''agent'', JStr ''chat''})"
  then have nn: "\<not> nullish message"
    using property_not_nullish [of message "''type''"] by auto
  from a have ev: "property message ''event'' \<noteq> JStr ''connect.challenge''"
    "property message ''event'' \<noteq> JStr ''agent''" "property message ''event'' \<noteq> JStr ''chat''"
    by (auto simp: ignoredEvents_def)
  show "handleGatewayMessage c message w = Some (Return w)"
    using a nn ev by (simp add: handleGatewayMessage_def member_def split: option.splits)
next
  assume a: "bridges w c = Some b \<and> property message ''type'' = JStr ''res''
      \<and> \<not> truthy (property message ''ok'')"
  then have nn: "\<not> nullish message"
    using property_not_nullish [of message "''type''"] by auto
  show "handleGatewayMessage c message w =
            Some (Return (w\<lparr>effects := effects w @
              [Callback (onMessage (heap w b))
                 (JObj [(''type'', JStr ''error''), (''error'', property message ''error'')])]\<rparr>))"
    using a nn by (simp add: handleGatewayMessage_def member_def invoke_onMessage_def)
qed

theorem gateway_frame_classification_witness:
  "handleGatewayMessage ''c1'' tick authenticated_world = Some (Return authenticated_world) \<and>
   handleGatewayMessage ''c1'' rejection authenticated_world =
     Some (Return (authenticated_world\<lparr>effects := [Callback 7 connected_notification,
        Callback 7 (JObj [(''type'', JStr ''error''), (''error'', JStr ''denied'')])]\<rparr>))"
  using gateway_frame_classification [of tick "''c1''" authenticated_world 0]
    gateway_frame_classification [of rejection "''c1''" authenticated_world 0]
  by (simp add: authenticated_world_facts tick_def rejection_def ignoredEvents_def)

text \<open>
  C8. An inbound event named agent, for a client with a registered bridge. When
  \<^verbatim>\<open>payload.delta?.text\<close> is truthy (the payload carries a text delta), the callback gets
  one response notification with that text, streaming true and the runId of the payload.
  Otherwise, when the status of the payload is completed or done, it gets one
  response_complete notification with the runId. Any other payload invokes no callback
  (a payload that is null or missing makes the handler throw, which the message handler
  of the transport catches).
\<close>

theorem agent_event_forwarding:
  assumes "bridges w c = Some b"
    and "property message ''type'' = JStr ''event''"
    and "property message ''event'' = JStr ''agent''"
    and "property message ''payload'' = payload"
  shows "(truthy (opt_member (property payload ''delta'') ''text'') \<longrightarrow>
            handleGatewayMessage c message w =
              Some (Return (w\<lparr>effects := effects w @
                [Callback (onMessage (heap w b))
                   (JObj [(''type'', JStr ''response''),
                          (''content'', property (property payload ''delta'') ''text''),
                          (''streaming'', JBool True),
                          (''runId'', property payload ''runId'')])]\<rparr>))) \<and>
         (\<not> truthy (opt_member (property payload ''delta'') ''text'') \<and>
          (property payload ''status'' = JStr ''completed'' \<or> property payload ''status'' = JStr ''done'') \<longrightarrow>
            handleGatewayMessage c message w =
              Some (Return (w\<lparr>effects := effects w @
                [Callback (onMessage (heap w b))
                   (JObj [(''type'', JStr ''response_complete''),
                          (''runId'', property payload ''runId'')])]\<rparr>))) \<and>
         (\<not> truthy (opt_member (property payload ''delta'') ''text'') \<and>
          property payload ''status'' \<noteq> JStr ''completed'' \<and> property payload ''status'' \<noteq> JStr ''done'' \<longrightarrow>
            map_option state_of (handleGatewayMessage c message w) = Some w)"
proof -
  have nn: "\<not> nullish message"
    using assms(2) by (rule property_not_nullish)
  have route: "handleGatewayMessage c message w = Some (handleAgentEvent c payload w)"
    using assms nn by (simp add: handleGatewayMessage_def member_def)
  have d: "nullish payload \<Longrightarrow> \<not> truthy (opt_member (property payload ''delta'') ''text'')"
    by (simp add: nullish_property opt_member_def)
  have s: "nullish payload \<Longrightarrow> property payload ''status'' = JUndefined"
    by (simp add: nullish_property)
  show ?thesis
    unfolding route using assms(1) d s
    by (cases "nullish payload")
       (auto simp: handleAgentEvent_def member_def invoke_onMessage_def state_of_def)
qed

theorem agent_event_forwarding_witness:
  "handleGatewayMessage ''c1'' agent_delta authenticated_world =
     Some (Return (authenticated_world\<lparr>effects := [Callback 7 connected_notification,
        Callback 7 (JObj [(''type'', JStr ''response''), (''content'', JStr ''hi''),
                          (''streaming'', JBool True), (''runId'', JStr ''r1'')])]\<rparr>)) \<and>
   handleGatewayMessage ''c1'' agent_done authenticated_world =
     Some (Return (authenticated_world\<lparr>effects := [Callback 7 connected_notification,
        Callback 7 (JObj [(''type'', JStr ''response_complete''), (''runId'', JStr ''r1'')])]\<rparr>)) \<and>
   map_option state_of (handleGatewayMessage ''c1'' agent_other authenticated_world) =
     Some authenticated_world"
  using agent_event_forwarding [of authenticated_world "''c1''" 0 agent_delta
      "JObj [(''delta'', JObj [(''text'', JStr ''hi'')]), (''runId'', JStr ''r1'')]"]
    agent_event_forwarding [of authenticated_world "''c1''" 0 agent_done
      "JObj [(''status'', JStr ''done''), (''runId'', JStr ''r1'')]"]
    agent_event_forwarding [of authenticated_world "''c1''" 0 agent_other
      "JObj [(''status'', JStr ''running''), (''runId'', JStr ''r1'')]"]
  by (simp add: authenticated_world_facts agent_delta_def agent_done_def agent_other_def
      opt_member_def)

section \<open>The handshake\<close>

text \<open>
  The encoded signature of a signature that has at least one byte is not empty: the first
  character of the base64 text is one of the alphabet, and the padding is removed from
  the end only.
\<close>

lemma b64_not_padding: "b64 i \<noteq> CHR ''=''"
proof -
  have "i mod 64 < length b64chars"
    by (simp add: b64chars_def)
  then have "b64 i \<in> set b64chars"
    unfolding b64_def by (rule nth_mem)
  moreover have "CHR ''='' \<notin> set b64chars"
    by (simp add: b64chars_def)
  ultimately show ?thesis by metis
qed

lemma base64_first: "bytes \<noteq> [] \<Longrightarrow> \<exists>rest. base64 bytes = b64 (unat (hd bytes) div 4) # rest"
  by (induction bytes rule: base64.induct) simp_all

lemma strip_padding_nonempty: "c \<noteq> CHR ''='' \<Longrightarrow> c \<in> set s \<Longrightarrow> strip_padding s \<noteq> []"
  by (auto simp: strip_padding_def dropWhile_eq_Nil_conv)

lemma base64url_nonempty: "bytes \<noteq> [] \<Longrightarrow> base64url bytes \<noteq> []"
proof -
  assume "bytes \<noteq> []"
  then obtain rest where r: "base64 bytes = b64 (unat (hd bytes) div 4) # rest"
    using base64_first by blast
  let ?c = "b64 (unat (hd bytes) div 4)"
  let ?c' = "if ?c = CHR ''+'' then CHR ''-'' else if ?c = CHR ''/'' then CHR ''_'' else ?c"
  have "?c' \<noteq> CHR ''=''"
    using b64_not_padding [of "unat (hd bytes) div 4"] by simp
  moreover have "?c' \<in> set (replace_char CHR ''/'' CHR ''_'' (replace_char CHR ''+'' CHR ''-'' (base64 bytes)))"
    by (simp add: r replace_char_def)
  ultimately show ?thesis
    unfolding base64url_def by (rule strip_padding_nonempty)
qed

text \<open>
  The encoding, three bytes at a time: every character is one of the 64 of the URL-safe
  alphabet, the padding is gone, and the text determines the bytes.
\<close>

lemma replace_replace:
  "replace_char CHR ''/'' CHR ''_'' (replace_char CHR ''+'' CHR ''-'' s) = map urlsafe_char s"
  by (simp add: replace_char_def urlsafe_char_def)

lemma urlsafe_b64_distinct: "distinct (map urlsafe_char b64chars)"
  by (simp add: b64chars_def urlsafe_char_def)

lemma urlsafe_b64_inj:
  assumes "i < 64" and "j < 64" and "urlsafe_char (b64 i) = urlsafe_char (b64 j)"
  shows "i = j"
proof -
  let ?xs = "map urlsafe_char b64chars"
  have l: "length ?xs = 64" by (simp add: b64chars_def)
  have "?xs ! i = urlsafe_char (b64 i)" "?xs ! j = urlsafe_char (b64 j)"
    using assms(1,2) l by (simp_all add: b64_def)
  then have "?xs ! i = ?xs ! j" using assms(3) by simp
  moreover have "i < length ?xs" "j < length ?xs" using assms(1,2) l by simp_all
  ultimately show ?thesis
    using urlsafe_b64_distinct nth_eq_iff_index_eq by blast
qed

lemma urlsafe_b64_safe:
  "urlsafe_char (b64 i) \<noteq> CHR ''=''" "urlsafe_char (b64 i) \<noteq> CHR ''+''"
  "urlsafe_char (b64 i) \<noteq> CHR ''/''"
proof -
  have "i mod 64 < length b64chars" by (simp add: b64chars_def)
  then have "urlsafe_char (b64 i) \<in> set (map urlsafe_char b64chars)"
    unfolding b64_def by (metis length_map nth_map nth_mem)
  moreover have "CHR ''='' \<notin> set (map urlsafe_char b64chars)"
    "CHR ''+'' \<notin> set (map urlsafe_char b64chars)"
    "CHR ''/'' \<notin> set (map urlsafe_char b64chars)"
    by (simp_all add: b64chars_def urlsafe_char_def)
  ultimately show "urlsafe_char (b64 i) \<noteq> CHR ''=''" "urlsafe_char (b64 i) \<noteq> CHR ''+''"
    "urlsafe_char (b64 i) \<noteq> CHR ''/''"
    by metis+
qed

lemma strip_padding_block:
  assumes "xs \<noteq> []" and "last xs \<noteq> CHR ''=''"
  shows "strip_padding (xs @ ys) = xs @ strip_padding ys"
proof -
  have h: "dropWhile (\<lambda>c. c = CHR ''='') (rev xs) = rev xs"
    using assms by (cases "rev xs") (auto simp: last_rev hd_rev)
  show ?thesis
    using h by (auto simp: strip_padding_def dropWhile_append)
qed

lemma strip_padding_pads [simp]:
  "strip_padding [] = []" "strip_padding [CHR ''=''] = []"
  "strip_padding [CHR ''='', CHR ''=''] = []"
  by (simp_all add: strip_padding_def)

lemma base64url_simps:
  "base64url [] = []"
  "base64url [a] = [urlsafe_char (b64 (unat a div 4)), urlsafe_char (b64 ((unat a mod 4) * 16))]"
  "base64url [a, b] =
     [urlsafe_char (b64 (unat a div 4)),
      urlsafe_char (b64 ((unat a mod 4) * 16 + unat b div 16)),
      urlsafe_char (b64 ((unat b mod 16) * 4))]"
  "base64url (a # b # c # rest) =
     [urlsafe_char (b64 (unat a div 4)),
      urlsafe_char (b64 ((unat a mod 4) * 16 + unat b div 16)),
      urlsafe_char (b64 ((unat b mod 16) * 4 + unat c div 64)),
      urlsafe_char (b64 (unat c mod 64))] @ base64url rest"
proof -
  show "base64url [] = []" by (simp add: base64url_def replace_replace)
  have p: "urlsafe_char CHR ''='' = CHR ''=''" by (simp add: urlsafe_char_def)
  show "base64url [a] = [urlsafe_char (b64 (unat a div 4)), urlsafe_char (b64 ((unat a mod 4) * 16))]"
    using strip_padding_block [of "[urlsafe_char (b64 (unat a div 4)),
        urlsafe_char (b64 ((unat a mod 4) * 16))]" "[CHR ''='', CHR ''='']"]
    by (simp add: base64url_def replace_replace p urlsafe_b64_safe)
  show "base64url [a, b] =
     [urlsafe_char (b64 (unat a div 4)),
      urlsafe_char (b64 ((unat a mod 4) * 16 + unat b div 16)),
      urlsafe_char (b64 ((unat b mod 16) * 4))]"
    using strip_padding_block [of "[urlsafe_char (b64 (unat a div 4)),
      urlsafe_char (b64 ((unat a mod 4) * 16 + unat b div 16)),
      urlsafe_char (b64 ((unat b mod 16) * 4))]" "[CHR ''='']"]
    by (simp add: base64url_def replace_replace p urlsafe_b64_safe)
  show "base64url (a # b # c # rest) =
     [urlsafe_char (b64 (unat a div 4)),
      urlsafe_char (b64 ((unat a mod 4) * 16 + unat b div 16)),
      urlsafe_char (b64 ((unat b mod 16) * 4 + unat c div 64)),
      urlsafe_char (b64 (unat c mod 64))] @ base64url rest"
    using strip_padding_block [of "[urlsafe_char (b64 (unat a div 4)),
      urlsafe_char (b64 ((unat a mod 4) * 16 + unat b div 16)),
      urlsafe_char (b64 ((unat b mod 16) * 4 + unat c div 64)),
      urlsafe_char (b64 (unat c mod 64))]" "map urlsafe_char (base64 rest)"]
    by (simp add: base64url_def replace_replace urlsafe_b64_safe)
qed


lemma byte_bound: "unat (a :: 8 word) < 256"
  using unsigned_less [of a] by simp

lemma div_mod_eq_imp_eq:
  "(x :: nat) div n = y div n \<Longrightarrow> x mod n = y mod n \<Longrightarrow> x = y"
  by (metis div_mult_mod_eq)

lemma mult_add_inj:
  assumes "q < n" and "q' < n" and "p * n + q = p' * n + (q' :: nat)"
  shows "p = p' \<and> q = q'"
proof -
  have "(p * n + q) div n = (p' * n + q') div n" using assms(3) by simp
  then have "p = p'" using assms(1,2) by simp
  with assms(3) show ?thesis by simp
qed

lemma sextets_inj_1:
  assumes "unat (a :: 8 word) div 4 = unat (a' :: 8 word) div 4"
    and "(unat a mod 4) * 16 = (unat a' mod 4) * 16"
  shows "a = a'"
proof -
  have "unat a mod 4 = unat a' mod 4" using assms(2) by simp
  with assms(1) have "unat a = unat a'" by (rule div_mod_eq_imp_eq)
  then show ?thesis by (simp add: word_unat_eq_iff)
qed

lemma sextets_inj_2:
  assumes "unat (a :: 8 word) div 4 = unat (a' :: 8 word) div 4"
    and "(unat a mod 4) * 16 + unat (b :: 8 word) div 16 =
         (unat a' mod 4) * 16 + unat (b' :: 8 word) div 16"
    and "unat b mod 16 = unat b' mod 16"
  shows "a = a' \<and> b = b'"
proof -
  have q: "unat b div 16 < 16" "unat b' div 16 < 16"
    using byte_bound [of b] byte_bound [of b'] by simp_all
  from mult_add_inj [OF q assms(2)]
  have e: "unat a mod 4 = unat a' mod 4" "unat b div 16 = unat b' div 16"
    by simp_all
  from assms(1) e(1) have "unat a = unat a'" by (rule div_mod_eq_imp_eq)
  moreover from e(2) assms(3) have "unat b = unat b'" by (rule div_mod_eq_imp_eq)
  ultimately show ?thesis by (simp add: word_unat_eq_iff)
qed

lemma sextets_inj_3:
  assumes "(unat (b :: 8 word) mod 16) * 4 + unat (c :: 8 word) div 64 =
           (unat (b' :: 8 word) mod 16) * 4 + unat (c' :: 8 word) div 64"
    and "unat c mod 64 = unat c' mod 64"
  shows "unat b mod 16 = unat b' mod 16 \<and> c = c'"
proof -
  have q: "unat c div 64 < 4" "unat c' div 64 < 4"
    using byte_bound [of c] byte_bound [of c'] by simp_all
  from mult_add_inj [OF q assms(1)]
  have e: "unat b mod 16 = unat b' mod 16" "unat c div 64 = unat c' div 64"
    by simp_all
  from e(2) assms(2) have "unat c = unat c'" by (rule div_mod_eq_imp_eq)
  with e(1) show ?thesis by (simp add: word_unat_eq_iff)
qed

lemma sextet_bounds:
  "unat (a :: 8 word) div 4 < 64"
  "(unat (a :: 8 word) mod 4) * 16 < 64"
  "(unat (a :: 8 word) mod 4) * 16 + unat (b :: 8 word) div 16 < 64"
  "(unat (b :: 8 word) mod 16) * 4 < 64"
  "(unat (b :: 8 word) mod 16) * 4 + unat (c :: 8 word) div 64 < 64"
  "unat (c :: 8 word) mod 64 < 64"
proof -
  have b: "unat a < 256" "unat b < 256" "unat c < 256" by (rule byte_bound)+
  have m: "unat a mod 4 < 4" "unat b mod 16 < 16" by simp_all
  have d: "unat b div 16 < 16" "unat c div 64 < 4" using b by simp_all
  show "unat a div 4 < 64" using b by simp
  show "(unat a mod 4) * 16 < 64" using m by linarith
  show "(unat a mod 4) * 16 + unat b div 16 < 64" using m d by linarith
  show "(unat b mod 16) * 4 < 64" using m by linarith
  show "(unat b mod 16) * 4 + unat c div 64 < 64" using m d by linarith
  show "unat c mod 64 < 64" by simp
qed


lemma urlsafe_b64_eq:
  "i < 64 \<Longrightarrow> j < 64 \<Longrightarrow> (urlsafe_char (b64 i) = urlsafe_char (b64 j)) = (i = j)"
  using urlsafe_b64_inj by blast

lemma base64url_inj: "base64url xs = base64url ys \<Longrightarrow> xs = ys"
proof (induction xs arbitrary: ys rule: base64.induct)
  case 1
  then show ?case
    by (cases ys rule: base64.cases) (simp_all add: base64url_simps)
next
  case (2 a)
  then show ?case
  proof (cases ys rule: base64.cases)
    case (2 a')
    with "2.prems" have "unat a div 4 = unat a' div 4"
      "(unat a mod 4) * 16 = (unat a' mod 4) * 16"
      by (simp_all add: base64url_simps urlsafe_b64_eq sextet_bounds)
    then have "a = a'" by (rule sextets_inj_1)
    with 2 show ?thesis by simp
  qed (simp_all add: base64url_simps)
next
  case (3 a b)
  then show ?case
  proof (cases ys rule: base64.cases)
    case (3 a' b')
    with "3.prems" have e: "unat a div 4 = unat a' div 4"
      "(unat a mod 4) * 16 + unat b div 16 = (unat a' mod 4) * 16 + unat b' div 16"
      "(unat b mod 16) * 4 = (unat b' mod 16) * 4"
      by (simp_all add: base64url_simps urlsafe_b64_eq sextet_bounds)
    from e(3) have "unat b mod 16 = unat b' mod 16" by simp
    with e(1,2) have "a = a' \<and> b = b'" by (rule sextets_inj_2)
    with 3 show ?thesis by simp
  qed (simp_all add: base64url_simps)
next
  case (4 a b c rest)
  show ?case
  proof (cases ys rule: base64.cases)
    case (4 a' b' c' rest')
    with "4.prems" have e: "unat a div 4 = unat a' div 4"
      "(unat a mod 4) * 16 + unat b div 16 = (unat a' mod 4) * 16 + unat b' div 16"
      "(unat b mod 16) * 4 + unat c div 64 = (unat b' mod 16) * 4 + unat c' div 64"
      "unat c mod 64 = unat c' mod 64"
      and r: "base64url rest = base64url rest'"
      by (simp_all add: base64url_simps urlsafe_b64_eq sextet_bounds)
    from sextets_inj_3 [OF e(3,4)] have bc: "unat b mod 16 = unat b' mod 16" "c = c'"
      by simp_all
    from sextets_inj_2 [OF e(1,2) bc(1)] have "a = a'" "b = b'" by simp_all
    moreover from "4.IH" [OF r] have "rest = rest'" .
    ultimately show ?thesis using 4 bc(2) by simp
  qed (use "4.prems" in \<open>simp_all add: base64url_simps\<close>)
qed

lemma base64url_alphabet:
  "CHR ''+'' \<notin> set (base64url bytes) \<and> CHR ''/'' \<notin> set (base64url bytes) \<and>
   CHR ''='' \<notin> set (base64url bytes)"
  by (induction bytes rule: base64.induct)
     (simp_all add: base64url_simps urlsafe_b64_safe urlsafe_b64_safe [symmetric])

lemma base64url_length: "length (base64url bytes) = (4 * length bytes + 2) div 3"
  by (induction bytes rule: base64.induct) (simp_all add: base64url_simps)

lemma signaturePayload_string:
  "signaturePayload fmt dev signedAt token (JStr nonce) =
     ''v2|'' @ deviceId dev @ ''|cli|cli|operator|operator.read,operator.write|'' @
     String_nat signedAt @ ''|'' @ token @ ''|'' @ nonce"
  by (simp add: signaturePayload_def connect_scopes_def js_or_def)

text \<open>
  C3, as stated, fails. The session of c1 is replaced while its transport 0 is open, and
  the transport 0 then delivers a challenge. The challenge is handled for the new bridge,
  whose transport 1 is still connecting: the request is signed, \<^verbatim>\<open>sendRaw\<close> finds the
  transport not open, and no frame is sent.
\<close>

theorem connect_challenge_counterexample:
  "map_option effects
     (run [CreateBridge ''c1'' 7, WsOpen 0, CloseBridge ''c1'', CreateBridge ''c1'' 8,
           WsMessage 0 (Inr challenge)] example_world) = Some [] \<and>
   map_option (transport_at 1)
     (run [CreateBridge ''c1'' 7, WsOpen 0, CloseBridge ''c1'', CreateBridge ''c1'' 8,
           WsMessage 0 (Inr challenge)] example_world) =
     Some \<lparr>readyState = CONNECTING, ws_clientId = ''c1'', ws_bridge = 1\<rparr>"
  by (simp add: example_defs service_defs Let_def signaturePayload_string)

text \<open>
  C3, amended. A connect.challenge event with the nonce \<open>nonce\<close> arrives for a client whose
  registered bridge has an open transport, in a process whose device identity is
  initialised and whose signer returns a signature of at least one byte (for Ed25519 it
  has 64). Then exactly one frame is sent, on that transport. It is a req with the method
  connect. Its \<^verbatim>\<open>device.signature\<close> is not empty and is the URL-safe base64 text without
  padding of the signature of the string that joins with a bar, in this order: v2, the
  device id, cli, cli, operator, the scopes joined with a comma, the timestamp in decimal
  digits, the gateway token (the empty string when none is configured) and the nonce.
  The text has no plus, slash or equals sign, has the length of unpadded base64, and
  determines the bytes of the signature: no other bytes have the same text. Its
  \<^verbatim>\<open>device.id\<close> is the device id of the process and its \<^verbatim>\<open>device.nonce\<close> is the nonce of
  the challenge.
\<close>

theorem connect_challenge_reply:
  assumes "bridges w c = Some b" and "ws (heap w b) = Some s"
    and "readyState (sockets w s) = OPEN"
    and "deviceIdentity w = Some dev"
    and "property message ''type'' = JStr ''event''"
    and "property message ''event'' = JStr ''connect.challenge''"
    and "property (property message ''payload'') ''nonce'' = JStr nonce"
    and "crypto_sign w (privateKey dev)
           (''v2|'' @ deviceId dev @ ''|cli|cli|operator|operator.read,operator.write|'' @
            String_nat (now w) @ ''|'' @ gatewayToken w @ ''|'' @ nonce) = Some signature"
    and "signature \<noteq> []"
    and "request = connectRequest (''uuid-'' @ String_nat (uuids w)) dev (gatewayToken w)
                     (base64url signature) (now w) (JStr nonce)"
  shows "handleGatewayMessage c message w =
           Some (Return (w\<lparr>uuids := Suc (uuids w), effects := effects w @ [Sent s request]\<rparr>)) \<and>
         property request ''type'' = JStr ''req'' \<and>
         property request ''method'' = JStr ''connect'' \<and>
         property (property (property request ''params'') ''device'') ''signature'' =
           JStr (base64url signature) \<and>
         base64url signature \<noteq> [] \<and>
         (\<forall>bytes. base64url bytes = base64url signature \<longrightarrow> bytes = signature) \<and>
         CHR ''+'' \<notin> set (base64url signature) \<and>
         CHR ''/'' \<notin> set (base64url signature) \<and>
         CHR ''='' \<notin> set (base64url signature) \<and>
         length (base64url signature) = (4 * length signature + 2) div 3 \<and>
         property (property (property request ''params'') ''device'') ''id'' = JStr (deviceId dev) \<and>
         property (property (property request ''params'') ''device'') ''nonce'' = JStr nonce"
proof -
  have nn: "\<not> nullish message"
    using assms(5) by (rule property_not_nullish)
  have np: "\<not> nullish (property message ''payload'')"
    using assms(7) by (rule property_not_nullish)
  have route: "handleGatewayMessage c message w =
      Some (handleConnectChallenge c (property message ''payload'') w)"
    using assms(1,5,6) nn by (simp add: handleGatewayMessage_def member_def)
  have sig: "signMessage (signaturePayload (number_toString w) dev (now w) (gatewayToken w)
                 (JStr nonce)) w =
      Inr (base64url signature)"
    using assms(4,8) by (simp add: signMessage_def signaturePayload_string)
  have "handleConnectChallenge c (property message ''payload'') w =
      Return (w\<lparr>uuids := Suc (uuids w), effects := effects w @ [Sent s request]\<rparr>)"
    using assms(1-4,7,10) np sig
    by (simp add: handleConnectChallenge_def member_def uuidv4_def sendRaw_def ws_send_def)
  moreover have "base64url signature \<noteq> []"
    using assms(9) by (rule base64url_nonempty)
  moreover have "\<forall>bytes. base64url bytes = base64url signature \<longrightarrow> bytes = signature"
    using base64url_inj by blast
  moreover note base64url_alphabet [of signature] base64url_length [of signature]
  ultimately show ?thesis
    using route by (simp add: assms(10) connectRequest_def)
qed

theorem connect_challenge_reply_witness:
  "handleGatewayMessage ''c1'' challenge open_world =
     Some (Return (open_world\<lparr>uuids := 1, effects :=
       [Sent 0 (connectRequest ''uuid-0'' example_device ''tok'' ''_wAR'' 0 (JStr ''abc''))]\<rparr>)) \<and>
   base64url [255, 0, 16] \<noteq> ''_wAR''"
proof -
  have a5: "property challenge ''type'' = JStr ''event''"
    and a6: "property challenge ''event'' = JStr ''connect.challenge''"
    and a7: "property (property challenge ''payload'') ''nonce'' = JStr ''abc''"
    by (simp_all add: challenge_def)
  have a8: "crypto_sign open_world (privateKey example_device)
           (''v2|'' @ deviceId example_device @ ''|cli|cli|operator|operator.read,operator.write|'' @
            String_nat (now open_world) @ ''|'' @ gatewayToken open_world @ ''|'' @ ''abc'') = Some [255, 0, 17]"
    by (simp add: example_defs service_defs Let_def)
  have a9: "[255, 0, 17 :: 8 word] \<noteq> []" by simp
  have enc: "base64url [255, 0, 17] = ''_wAR''"
    by (simp add: base64url_def replace_char_def strip_padding_def b64_def b64chars_def)
  from connect_challenge_reply [OF open_world_facts(1,3,4,12) a5 a6 a7 a8 a9 refl]
  show ?thesis
    by (auto simp add: open_world_facts enc String_nat_0)
qed

section \<open>The outbound queue\<close>

text \<open>
  \<^verbatim>\<open>convertToGatewayFormat\<close> reads the session key and the next request id only, and
  throws only for a message that is null or undefined. Before authentication every call
  of \<^verbatim>\<open>sendMessage\<close> appends to the queue; on an authenticated bridge with an open
  transport every call sends the translation of its message; the loop of
  \<^verbatim>\<open>handleConnectSuccess\<close> ends when the transport is open, having sent the translations
  of the queued messages in their order.
\<close>

lemma convert_world:
  "convertToGatewayFormat c m w = Inr (g, w1) \<Longrightarrow> w1 = w \<or> w1 = w\<lparr>uuids := Suc (uuids w)\<rparr>"
  by (auto simp: convertToGatewayFormat_def uuidv4_def Let_def split: if_splits)


lemma sessionKey_or_main_uuids [simp]:
  "sessionKey_or_main c (w\<lparr>uuids := n\<rparr>) = sessionKey_or_main c w"
  by (simp add: sessionKey_or_main_def cong: option.case_cong)

lemma sessionKey_or_main_effects [simp]:
  "sessionKey_or_main c (w\<lparr>effects := es\<rparr>) = sessionKey_or_main c w"
  by (simp add: sessionKey_or_main_def cong: option.case_cong)





lemma sendMessage_live:
  assumes "bridges w c = Some b" and "authenticated (heap w b)"
    and "ws (heap w b) = Some s" and "readyState (sockets w s) = OPEN"
    and "convertToGatewayFormat c m w = Inr (g, w1)"
  shows "sendMessage c m w = Return (w1\<lparr>effects := effects w1 @ [Sent s g]\<rparr>)"
proof -
  from convert_world [OF assms(5)] have "readyState (sockets w1 s) = OPEN"
    using assms(4) by auto
  then show ?thesis
    using assms by (simp add: sendMessage_def ws_send_def)
qed






text \<open>
  C4, as stated, fails. The client c1 submits a history message with the limit 10 before
  authentication and the handshake response arrives: the \<^verbatim>\<open>sessions.history\<close> request
  is sent first and the callback gets the gateway_connected notification after it, not
  before.
\<close>

theorem connected_before_history_counterexample:
  "map_option effects
     (run [CreateBridge ''c1'' 7, WsOpen 0, SendMessage ''c1'' (history_message 10),
           WsMessage 0 (Inr hello_ok)] example_world) =
   Some [Sent 0 (JObj [(''type'', JStr ''req''), (''id'', JStr ''uuid-0''),
                       (''method'', JStr ''sessions.history''),
                       (''params'', JObj [(''sessionKey'', JStr ''main''), (''limit'', JNum 10)])]),
         Callback 7 connected_notification]"
  by (simp add: example_defs service_defs drainQueue_Nil drainQueue_Cons Let_def String_nat_0)

text \<open>
  C4, amended. A history message with the limit 10 is submitted to a registered bridge
  that is not authenticated, whose queue is empty and whose transport is open; it is
  queued and nothing is sent. When the handshake response arrives, exactly one request
  is sent, with the method \<^verbatim>\<open>sessions.history\<close> and the limit 10, and then the callback
  gets one gateway_connected notification: the notification comes after the request.
\<close>

theorem history_request_then_connected:
  assumes "bridges w c = Some b" and "\<not> authenticated (heap w b)"
    and "ws (heap w b) = Some s" and "readyState (sockets w s) = OPEN"
    and "messageQueue (heap w b) = []"
    and "property message ''type'' = JStr ''history''"
    and "property message ''limit'' = JNum 10"
    and "property frame ''type'' = JStr ''res''" and "truthy (property frame ''ok'')"
    and "opt_member (property frame ''payload'') ''type'' = JStr ''hello-ok''"
  shows "\<exists>w1 w2.
           sendMessage c message w = Return w1 \<and> effects w1 = effects w \<and>
           handleGatewayMessage c frame w1 = Some (Return w2) \<and>
           effects w2 = effects w @
             [Sent s (JObj [(''type'', JStr ''req''),
                            (''id'', JStr (''uuid-'' @ String_nat (uuids w))),
                            (''method'', JStr ''sessions.history''),
                            (''params'', JObj [(''sessionKey'', JStr (sessionKey_or_main c w)),
                                               (''limit'', JNum 10)])]),
              Callback (onMessage (heap w b)) connected_notification]"
proof -
  have nm: "\<not> nullish message"
    using assms(6) by (rule property_not_nullish)
  have nf: "\<not> nullish frame"
    using assms(8) by (rule property_not_nullish)
  let ?w1 = "push_message b message w"
  let ?wa = "update_bridge b (\<lambda>bridge. bridge\<lparr>authenticated := True\<rparr>) ?w1"
  let ?request = "JObj [(''type'', JStr ''req''),
                        (''id'', JStr (''uuid-'' @ String_nat (uuids w))),
                        (''method'', JStr ''sessions.history''),
                        (''params'', JObj [(''sessionKey'', JStr (sessionKey_or_main c w)),
                                           (''limit'', JNum 10)])]"
  have s1: "sendMessage c message w = Return ?w1"
    using assms(1,2) by (simp add: sendMessage_def)
  have e1: "effects ?w1 = effects w" "bridges ?w1 c = Some b"
    using assms(1) by (simp_all add: push_message_def update_bridge_def)
  have q: "messageQueue (heap ?wa b) = [message]"
    using assms(5) by (simp add: push_message_def update_bridge_def)
  let ?wq = "update_bridge b (\<lambda>bridge. bridge\<lparr>messageQueue := []\<rparr>) ?wa"
  have key: "sessionKey_or_main c ?wq = sessionKey_or_main c w"
    using assms(1) by (simp add: sessionKey_or_main_def push_message_def update_bridge_def)
  have conv: "convertToGatewayFormat c message ?wq =
      Inr (?request, ?wq\<lparr>uuids := Suc (uuids ?wq)\<rparr>)"
    using nm assms(6,7) key
    by (simp add: convertToGatewayFormat_def uuidv4_def js_or_def Let_def push_message_def
        update_bridge_def)
  have pq: "bridges ?wq c = Some b" "authenticated (heap ?wq b)" "ws (heap ?wq b) = Some s"
    "readyState (sockets ?wq s) = OPEN"
    using assms(1-4) by (simp_all add: push_message_def update_bridge_def)
  let ?w2 = "?wq\<lparr>uuids := Suc (uuids ?wq), effects := effects ?wq @ [Sent s ?request]\<rparr>"
  have s2: "sendMessage c message ?wq = Return ?w2"
    using sendMessage_live [OF pq conv] by simp
  have q2: "messageQueue (heap ?w2 b) = []"
    by (simp add: update_bridge_def)
  have d: "drainQueue c b ?wa = Some (Return ?w2)"
    using drainQueue_Cons [OF q, of c] s2 drainQueue_Nil [OF q2, of c] by simp
  have h: "handleGatewayMessage c frame ?w1 =
      Some (Return (invoke_onMessage b connected_notification ?w2))"
    using e1(2) nf assms(8-10) d
    by (simp add: handleGatewayMessage_def member_def handleConnectSuccess_def)
  have "effects (invoke_onMessage b connected_notification ?w2) =
      effects w @ [Sent s ?request, Callback (onMessage (heap w b)) connected_notification]"
    by (simp add: invoke_onMessage_def push_message_def update_bridge_def)
  then show ?thesis
    using s1 e1(1) h by blast
qed

theorem history_request_then_connected_witness:
  "\<exists>w1 w2. sendMessage ''c1'' (history_message 10) open_world = Return w1 \<and>
     handleGatewayMessage ''c1'' hello_ok w1 = Some (Return w2) \<and>
     effects w2 =
       [Sent 0 (JObj [(''type'', JStr ''req''), (''id'', JStr ''uuid-0''),
                      (''method'', JStr ''sessions.history''),
                      (''params'', JObj [(''sessionKey'', JStr ''main''), (''limit'', JNum 10)])]),
        Callback 7 connected_notification]"
proof -
  have a6: "property (history_message 10) ''type'' = JStr ''history''"
    "property (history_message 10) ''limit'' = JNum 10"
    by (simp_all add: history_message_def)
  have a8: "property hello_ok ''type'' = JStr ''res''" "truthy (property hello_ok ''ok'')"
    "opt_member (property hello_ok ''payload'') ''type'' = JStr ''hello-ok''"
    by (simp_all add: hello_ok_def opt_member_def)
  from history_request_then_connected [OF open_world_facts(1-4,6) a6 a8]
  show ?thesis
    by (auto simp: open_world_facts String_nat_0)
qed

section \<open>Frames of a superseded transport\<close>

lemma base64url_example: "base64url [255, 0, 17] = ''_wAR''"
  by (simp add: base64url_def replace_char_def strip_padding_def b64_def b64chars_def)

lemma closed_world_facts:
  "bridges closed_world ''c1'' = None"
  "ws_clientId (sockets closed_world 0) = ''c1''"
  "readyState (sockets closed_world 0) = CLOSING"
  by (simp_all add: example_defs service_defs Let_def)

lemma replaced_world_facts:
  "bridges replaced_world ''c1'' = Some (Suc 0)"
  "ws_clientId (sockets replaced_world 0) = ''c1''"
  "ws_clientId (sockets replaced_world (Suc 0)) = ''c1''"
  "readyState (sockets replaced_world 0) = CLOSING"
  "readyState (sockets replaced_world (Suc 0)) = CONNECTING"
  "ws (heap replaced_world (Suc 0)) = Some (Suc 0)"
  "onMessage (heap replaced_world (Suc 0)) = 8"
  by (simp_all add: example_defs service_defs Let_def)

text \<open>
  C1, as stated, fails. The transport 0 of the client c1 answers the challenge; then the
  session is closed and created again, with the callback 8 and the transport 1. The
  handshake response that the transport 0 delivers afterwards reaches the new session:
  its callback 8 is invoked, and its bridge, which was not authenticated and whose own
  transport 1 has not opened, becomes authenticated.
\<close>

theorem stale_frame_counterexample:
  "map_option effects
     (run [CreateBridge ''c1'' 7, WsOpen 0, WsMessage 0 (Inr challenge), CloseBridge ''c1'',
           CreateBridge ''c1'' 8, WsMessage 0 (Inr hello_ok)] example_world) =
     Some [Sent 0 (connectRequest ''uuid-0'' example_device ''tok'' ''_wAR'' 0 (JStr ''abc'')),
           Callback 8 connected_notification] \<and>
   map_option (bridge_at 1)
     (run [CreateBridge ''c1'' 7, WsOpen 0, WsMessage 0 (Inr challenge), CloseBridge ''c1'',
           CreateBridge ''c1'' 8] example_world) =
     Some \<lparr>ws = Some 1, onMessage = 8, reconnectTimeout = None, authenticated = False,
           messageQueue = [], sessionKey = None\<rparr> \<and>
   map_option (bridge_at 1)
     (run [CreateBridge ''c1'' 7, WsOpen 0, WsMessage 0 (Inr challenge), CloseBridge ''c1'',
           CreateBridge ''c1'' 8, WsMessage 0 (Inr hello_ok)] example_world) =
     Some \<lparr>ws = Some 1, onMessage = 8, reconnectTimeout = None, authenticated = True,
           messageQueue = [], sessionKey = None\<rparr> \<and>
   map_option (transport_at 1)
     (run [CreateBridge ''c1'' 7, WsOpen 0, WsMessage 0 (Inr challenge), CloseBridge ''c1'',
           CreateBridge ''c1'' 8, WsMessage 0 (Inr hello_ok)] example_world) =
     Some \<lparr>readyState = CONNECTING, ws_clientId = ''c1'', ws_bridge = 1\<rparr>"
  by (simp add: example_defs service_defs drainQueue_Nil Let_def signaturePayload_string
      base64url_example String_nat_0)

lemma replaced_world_bridge:
  "heap replaced_world (Suc 0) =
     \<lparr>ws = Some (Suc 0), onMessage = 8, reconnectTimeout = None, authenticated = False,
      messageQueue = [], sessionKey = None\<rparr>"
  "effects replaced_world = []"
  by (simp_all add: example_defs service_defs Let_def)

text \<open>
  C1, amended. The message handler of a transport finds the session by the client id
  alone and keeps no generation of the transport. A frame that a superseded transport
  delivers is ignored when no bridge is registered for its client at that moment (after
  \<^verbatim>\<open>closeBridge\<close>, before a new \<^verbatim>\<open>createBridge\<close>): the state stays as it is and no callback
  is invoked. When a bridge is registered and the transport is not the one the bridge
  holds, the frame is handled for that bridge all the same: a res frame with a falsy ok
  invokes the callback of the registered bridge once, with the error notification; a
  handshake response (res, ok, payload of type hello-ok), the queue being empty, sets the
  flag \<open>authenticated\<close> of the registered bridge and invokes its callback once, with the
  gateway_connected notification. Whatever the frame, the handler does what it does for
  the same frame of any other transport of that client, the current one included.
\<close>

theorem stale_frame_routing:
  "(bridges w (ws_clientId (sockets w s)) = None \<longrightarrow> on_message s parsed w = Some w) \<and>
   (bridges w (ws_clientId (sockets w s)) = Some b \<and> ws (heap w b) \<noteq> Some s \<and>
    property frame ''type'' = JStr ''res'' \<and> \<not> truthy (property frame ''ok'') \<longrightarrow>
      on_message s (Inr frame) w =
        Some (w\<lparr>effects := effects w @
          [Callback (onMessage (heap w b))
             (JObj [(''type'', JStr ''error''), (''error'', property frame ''error'')])]\<rparr>)) \<and>
   (bridges w (ws_clientId (sockets w s)) = Some b \<and> ws (heap w b) \<noteq> Some s \<and>
    messageQueue (heap w b) = [] \<and>
    property frame ''type'' = JStr ''res'' \<and> truthy (property frame ''ok'') \<and>
    opt_member (property frame ''payload'') ''type'' = JStr ''hello-ok'' \<longrightarrow>
      on_message s (Inr frame) w =
        Some (w\<lparr>heap := (heap w)(b := (heap w b)\<lparr>authenticated := True\<rparr>),
                effects := effects w @
                  [Callback (onMessage (heap w b)) connected_notification]\<rparr>)) \<and>
   (ws_clientId (sockets w s') = ws_clientId (sockets w s) \<longrightarrow>
      on_message s' parsed w = on_message s parsed w)"
proof (intro conjI impI)
  assume "bridges w (ws_clientId (sockets w s)) = None"
  then show "on_message s parsed w = Some w"
    by (simp add: on_message_def handleGatewayMessage_def state_of_def split: sum.splits)
next
  assume a: "bridges w (ws_clientId (sockets w s)) = Some b \<and> ws (heap w b) \<noteq> Some s \<and>
    property frame ''type'' = JStr ''res'' \<and> \<not> truthy (property frame ''ok'')"
  then have "\<not> nullish frame"
    using property_not_nullish [of frame "''type''"] by auto
  with a show "on_message s (Inr frame) w =
        Some (w\<lparr>effects := effects w @
          [Callback (onMessage (heap w b))
             (JObj [(''type'', JStr ''error''), (''error'', property frame ''error'')])]\<rparr>)"
    by (simp add: on_message_def handleGatewayMessage_def member_def invoke_onMessage_def
        state_of_def)
next
  assume a: "bridges w (ws_clientId (sockets w s)) = Some b \<and> ws (heap w b) \<noteq> Some s \<and>
    messageQueue (heap w b) = [] \<and>
    property frame ''type'' = JStr ''res'' \<and> truthy (property frame ''ok'') \<and>
    opt_member (property frame ''payload'') ''type'' = JStr ''hello-ok''"
  then have nn: "\<not> nullish frame"
    using property_not_nullish [of frame "''type''"] by auto
  let ?wa = "update_bridge b (\<lambda>bridge. bridge\<lparr>authenticated := True\<rparr>) w"
  have "messageQueue (heap ?wa b) = []"
    using a by (simp add: update_bridge_def)
  then have "drainQueue (ws_clientId (sockets w s)) b ?wa = Some (Return ?wa)"
    by (rule drainQueue_Nil)
  with a nn show "on_message s (Inr frame) w =
        Some (w\<lparr>heap := (heap w)(b := (heap w b)\<lparr>authenticated := True\<rparr>),
                effects := effects w @
                  [Callback (onMessage (heap w b)) connected_notification]\<rparr>)"
    by (simp add: on_message_def handleGatewayMessage_def member_def handleConnectSuccess_def
        invoke_onMessage_def update_bridge_def state_of_def)
next
  assume "ws_clientId (sockets w s') = ws_clientId (sockets w s)"
  then show "on_message s' parsed w = on_message s parsed w"
    by (simp add: on_message_def split: sum.splits)
qed

theorem stale_frame_routing_witness:
  "on_message 0 (Inr rejection) closed_world = Some closed_world \<and>
   on_message 0 (Inr rejection) replaced_world =
     Some (replaced_world\<lparr>effects :=
       [Callback 8 (JObj [(''type'', JStr ''error''), (''error'', JStr ''denied'')])]\<rparr>) \<and>
   on_message 0 (Inr hello_ok) replaced_world =
     Some (replaced_world\<lparr>heap := (heap replaced_world)(Suc 0 :=
               \<lparr>ws = Some (Suc 0), onMessage = 8, reconnectTimeout = None, authenticated = True,
                messageQueue = [], sessionKey = None\<rparr>),
             effects := [Callback 8 connected_notification]\<rparr>) \<and>
   on_message 0 (Inr rejection) replaced_world = on_message 1 (Inr rejection) replaced_world"
proof -
  note t = stale_frame_routing [where w = closed_world and s = 0 and parsed = "Inr rejection",
      THEN conjunct1]
  note u = stale_frame_routing [where w = replaced_world and s = 0 and b = "Suc 0"]
  have r: "property rejection ''type'' = JStr ''res''" "\<not> truthy (property rejection ''ok'')"
    "property rejection ''error'' = JStr ''denied''"
    by (simp_all add: rejection_def)
  have h: "property hello_ok ''type'' = JStr ''res''" "truthy (property hello_ok ''ok'')"
    "opt_member (property hello_ok ''payload'') ''type'' = JStr ''hello-ok''"
    by (simp_all add: hello_ok_def opt_member_def)
  have c1: "on_message 0 (Inr rejection) closed_world = Some closed_world"
    using t by (simp add: closed_world_facts)
  have c2: "on_message 0 (Inr rejection) replaced_world =
     Some (replaced_world\<lparr>effects :=
       [Callback 8 (JObj [(''type'', JStr ''error''), (''error'', JStr ''denied'')])]\<rparr>)"
    using u [where frame = rejection, THEN conjunct2, THEN conjunct1] r
    by (simp add: replaced_world_facts replaced_world_bridge)
  have c3: "on_message 0 (Inr hello_ok) replaced_world =
     Some (replaced_world\<lparr>heap := (heap replaced_world)(Suc 0 :=
               \<lparr>ws = Some (Suc 0), onMessage = 8, reconnectTimeout = None, authenticated = True,
                messageQueue = [], sessionKey = None\<rparr>),
             effects := [Callback 8 connected_notification]\<rparr>)"
    using u [where frame = hello_ok, THEN conjunct2, THEN conjunct2, THEN conjunct1] h
    by (simp add: replaced_world_facts replaced_world_bridge)
  have c4: "on_message 0 (Inr rejection) replaced_world = on_message 1 (Inr rejection) replaced_world"
    using u [where parsed = "Inr rejection" and s' = 1, THEN conjunct2, THEN conjunct2,
        THEN conjunct2]
    by (simp add: replaced_world_facts)
  show ?thesis using c1 c2 c3 c4 by blast
qed

section \<open>The authenticated flag\<close>

text \<open>
  Which steps change the flag \<open>authenticated\<close> of a bridge: no method and no handler
  raises it but \<^verbatim>\<open>handleConnectSuccess\<close>, and that one raises it for the bridge registered
  for its client only. The loop of \<^verbatim>\<open>handleConnectSuccess\<close> may not return; when it
  returns, it has left the flags as they were.
\<close>

lemma closeBridge_heap: "heap (state_of (closeBridge c w)) = heap w"
  by (simp add: closeBridge_def state_of_def clearTimeout_def ws_close_def Let_def
      split: option.splits sum.splits ReadyState.splits)

lemma connectToGateway_authenticated:
  "authenticated (heap (connectToGateway c w) b) = authenticated (heap w b)"
  by (simp add: connectToGateway_def update_bridge_def Let_def split: option.splits)

lemma createBridge_authenticated:
  "authenticated (heap (state_of (createBridge c cb w)) b) \<Longrightarrow> authenticated (heap w b)"
proof -
  assume a: "authenticated (heap (state_of (createBridge c cb w)) b)"
  obtain w1 where w1: "(if bridges w c \<noteq> None then closeBridge c w else Return w) = Return w1"
    and h1: "heap w1 = heap w"
    using closeBridge_heap [of c w]
    by (cases "closeBridge c w") (auto simp: closeBridge_def state_of_def Let_def split: option.splits)
  show ?thesis
    using a h1 unfolding createBridge_def w1
    by (simp add: state_of_def connectToGateway_authenticated Let_def split: if_splits)
qed

lemma sendMessage_authenticated:
  "authenticated (heap (state_of (sendMessage c m w)) b) = authenticated (heap w b)"
  by (auto simp: sendMessage_def push_message_def update_bridge_def state_of_def ws_send_def
      convertToGatewayFormat_def uuidv4_def Let_def
      split: option.splits sum.splits ReadyState.splits prod.splits if_splits)

lemma drainQueue_authenticated:
  assumes "drainQueue c b0 w = Some r"
  shows "authenticated (heap (state_of r) b) = authenticated (heap w b)"
proof (rule drainQueue.raw_induct
    [where P = "\<lambda>c b0 w r. authenticated (heap (state_of r) b) = authenticated (heap w b)",
     OF _ assms])
  fix drain :: "string \<Rightarrow> nat \<Rightarrow> World \<Rightarrow> outcome option" and c b0 w r
  assume IH: "\<And>c b0 w r. drain c b0 w = Some r \<Longrightarrow>
      authenticated (heap (state_of r) b) = authenticated (heap w b)"
  assume body: "(case messageQueue (heap w b0) of
        [] \<Rightarrow> Some (Return w)
      | queuedMsg # rest \<Rightarrow>
          (case sendMessage c queuedMsg
                  (update_bridge b0 (\<lambda>bridge. bridge\<lparr>messageQueue := rest\<rparr>) w) of
             Return w' \<Rightarrow> drain c b0 w'
           | Throw e w' \<Rightarrow> Some (Throw e w'))) = Some r"
  show "authenticated (heap (state_of r) b) = authenticated (heap w b)"
  proof (cases "messageQueue (heap w b0)")
    case Nil
    with body show ?thesis by (auto simp: state_of_def)
  next
    case (Cons m rest)
    let ?wq = "update_bridge b0 (\<lambda>bridge. bridge\<lparr>messageQueue := rest\<rparr>) w"
    have q: "authenticated (heap ?wq b) = authenticated (heap w b)"
      by (simp add: update_bridge_def)
    show ?thesis
    proof (cases "sendMessage c m ?wq")
      case (Return w')
      with body Cons have "drain c b0 w' = Some r" by simp
      from IH [OF this] sendMessage_authenticated [of c m ?wq b] q Return
      show ?thesis by (simp add: state_of_def)
    next
      case (Throw e w')
      with body Cons have "r = Throw e w'" by simp
      with sendMessage_authenticated [of c m ?wq b] q Throw
      show ?thesis by (simp add: state_of_def)
    qed
  qed
qed

lemma sendRaw_heap: "heap (sendRaw c m w) = heap w"
  by (simp add: sendRaw_def ws_send_def split: option.splits ReadyState.splits)

lemma handleConnectChallenge_heap: "heap (state_of (handleConnectChallenge c p w)) = heap w"
  by (simp add: handleConnectChallenge_def state_of_def uuidv4_def sendRaw_heap Let_def
      split: option.splits sum.splits)

lemma handleAgentEvent_heap: "heap (state_of (handleAgentEvent c p w)) = heap w"
  by (simp add: handleAgentEvent_def state_of_def invoke_onMessage_def
      split: option.splits sum.splits)

lemma handleConnectSuccess_authenticated:
  assumes "handleConnectSuccess c p w = Some r" and "bridges w c \<noteq> Some b"
  shows "authenticated (heap (state_of r) b) = authenticated (heap w b)"
proof (cases "bridges w c")
  case None
  with assms show ?thesis by (auto simp: handleConnectSuccess_def state_of_def)
next
  case (Some b0)
  let ?wa = "update_bridge b0 (\<lambda>bridge. bridge\<lparr>authenticated := True\<rparr>) w"
  from Some assms(2) have ne: "b0 \<noteq> b" by simp
  then have a: "authenticated (heap ?wa b) = authenticated (heap w b)"
    by (simp add: update_bridge_def)
  from assms(1) Some obtain r0 where d: "drainQueue c b0 ?wa = Some r0"
    and r: "state_of r = state_of r0 \<or>
            state_of r = invoke_onMessage b0 connected_notification (state_of r0)"
    by (auto simp: handleConnectSuccess_def state_of_def split: option.splits outcome.splits)
  from drainQueue_authenticated [OF d, of b] a r show ?thesis
    by (auto simp: invoke_onMessage_def)
qed

lemma handleGatewayMessage_authenticated:
  assumes "handleGatewayMessage c frame w = Some r"
    and "\<not> (bridges w c = Some b \<and> property frame ''type'' = JStr ''res''
            \<and> truthy (property frame ''ok'')
            \<and> opt_member (property frame ''payload'') ''type'' = JStr ''hello-ok'')"
  shows "authenticated (heap (state_of r) b) = authenticated (heap w b)"
proof (cases "bridges w c")
  case None
  with assms(1) show ?thesis by (auto simp: handleGatewayMessage_def state_of_def)
next
  case (Some b0)
  let ?hello = "property frame ''type'' = JStr ''res'' \<and> truthy (property frame ''ok'')
            \<and> opt_member (property frame ''payload'') ''type'' = JStr ''hello-ok''"
  show ?thesis
  proof (cases "nullish frame")
    case True
    with Some assms(1) show ?thesis
      by (auto simp: handleGatewayMessage_def member_def state_of_def)
  next
    case False
    show ?thesis
    proof (cases ?hello)
      case True
      with assms(2) have "bridges w c \<noteq> Some b" by simp
      moreover have "handleConnectSuccess c (property frame ''payload'') w = Some r"
        using assms(1) Some False True
        by (simp add: handleGatewayMessage_def member_def)
      ultimately show ?thesis by (rule handleConnectSuccess_authenticated [rotated])
    next
      case nh: False
      have "handleGatewayMessage c frame w = Some r" by (rule assms(1))
      then show ?thesis
        using Some False nh
          handleConnectChallenge_heap [of c "property frame ''payload''" w]
          handleAgentEvent_heap [of c "property frame ''payload''" w]
        by (auto simp: handleGatewayMessage_def member_def
            invoke_onMessage_def state_of_def split: if_splits)
    qed
  qed
qed

lemma on_close_authenticated:
  "authenticated (heap (on_close s w) b) \<Longrightarrow> authenticated (heap w b)"
  by (auto simp: on_close_def update_bridge_def setTimeout_def Let_def split: if_splits)

lemma on_close_resets:
  "\<not> authenticated (heap (on_close s w) (ws_bridge (sockets w s)))"
  "ws (heap (on_close s w) (ws_bridge (sockets w s))) = None"
  by (auto simp: on_close_def update_bridge_def setTimeout_def Let_def split: if_splits)

lemma witness_steps:
  "fire (WsMessage 0 (Inr hello_ok)) open_world = Some authenticated_world"
  "fire (WsClose 0) authenticated_world = Some (after [WsClose 0] authenticated_world)"
  "fire (WsError 0) authenticated_world = Some (after [WsError 0] authenticated_world)"
  "ws_bridge (sockets authenticated_world 0) = 0"
  by (simp_all add: example_defs service_defs drainQueue_Nil Let_def)

text \<open>
  C9, as stated, fails. First run: the bridge of c1 is authenticated over its transport 0
  and the transport reports an error; the transport is closing and the flag is still
  true, no step having reset it. Second run: the session of c1 is replaced while the
  transport 0 is open, and the handshake response of the transport 0 arrives afterwards;
  the new bridge is authenticated although its own transport 1 is still connecting and
  has received nothing.
\<close>

theorem authenticated_flag_counterexample:
  "map_option (bridge_at 0)
     (run [CreateBridge ''c1'' 7, WsOpen 0, WsMessage 0 (Inr hello_ok), WsError 0] example_world) =
     Some \<lparr>ws = Some 0, onMessage = 7, reconnectTimeout = None, authenticated = True,
           messageQueue = [], sessionKey = None\<rparr> \<and>
   map_option (transport_at 0)
     (run [CreateBridge ''c1'' 7, WsOpen 0, WsMessage 0 (Inr hello_ok), WsError 0] example_world) =
     Some \<lparr>readyState = CLOSING, ws_clientId = ''c1'', ws_bridge = 0\<rparr> \<and>
   map_option (bridge_at 1)
     (run [CreateBridge ''c1'' 7, WsOpen 0, CreateBridge ''c1'' 8, WsMessage 0 (Inr hello_ok)]
        example_world) =
     Some \<lparr>ws = Some 1, onMessage = 8, reconnectTimeout = None, authenticated = True,
           messageQueue = [], sessionKey = None\<rparr> \<and>
   map_option (transport_at 1)
     (run [CreateBridge ''c1'' 7, WsOpen 0, CreateBridge ''c1'' 8, WsMessage 0 (Inr hello_ok)]
        example_world) =
     Some \<lparr>readyState = CONNECTING, ws_clientId = ''c1'', ws_bridge = 1\<rparr>"
  by (simp add: example_defs service_defs drainQueue_Nil Let_def)

text \<open>
  C9, amended. The flag of a bridge goes from false to true in one way only: a frame of
  type res with a truthy ok and a payload of type hello-ok is delivered by a transport
  of the client for which the bridge is registered (whatever transport of that client
  it is, and whether or not the transport of the bridge is open). Every close event of a
  transport sets the flag of the bridge the transport was made for to false, and its
  \<open>ws\<close> to null, in the handler that then arms the reconnect timer. An error event
  of a transport changes no bridge: the flag is reset by the close event that follows.
\<close>

theorem authenticated_flag_transitions:
  "(fire e w = Some w1 \<and> \<not> authenticated (heap w b) \<and> authenticated (heap w1 b) \<longrightarrow>
      (\<exists>s frame. e = WsMessage s (Inr frame) \<and>
         bridges w (ws_clientId (sockets w s)) = Some b \<and>
         property frame ''type'' = JStr ''res'' \<and> truthy (property frame ''ok'') \<and>
         opt_member (property frame ''payload'') ''type'' = JStr ''hello-ok'')) \<and>
   (fire (WsClose s) w = Some w2 \<longrightarrow>
      \<not> authenticated (heap w2 (ws_bridge (sockets w s))) \<and>
      ws (heap w2 (ws_bridge (sockets w s))) = None) \<and>
   (fire (WsError s) w = Some w3 \<longrightarrow> heap w3 = heap w)"
proof (intro conjI impI)
  assume a: "fire e w = Some w1 \<and> \<not> authenticated (heap w b) \<and> authenticated (heap w1 b)"
  show "\<exists>s frame. e = WsMessage s (Inr frame) \<and>
         bridges w (ws_clientId (sockets w s)) = Some b \<and>
         property frame ''type'' = JStr ''res'' \<and> truthy (property frame ''ok'') \<and>
         opt_member (property frame ''payload'') ''type'' = JStr ''hello-ok''"
  proof (cases e)
    case (CreateBridge c cb)
    with a createBridge_authenticated [of c cb w b] show ?thesis by auto
  next
    case (SendMessage c m)
    with a sendMessage_authenticated [of c m w b] show ?thesis by auto
  next
    case (CloseBridge c)
    with a closeBridge_heap [of c w] show ?thesis by auto
  next
    case (WsOpen s)
    with a show ?thesis
      by (auto simp: on_open_def update_bridge_def set_readyState_def split: if_splits)
  next
    case (WsMessage s parsed)
    show ?thesis
    proof (cases parsed)
      case (Inl err)
      with a WsMessage show ?thesis by (auto simp: on_message_def)
    next
      case (Inr frame)
      with a WsMessage obtain r
        where r: "handleGatewayMessage (ws_clientId (sockets w s)) frame w = Some r"
          and w1: "w1 = state_of r"
        by (auto simp: on_message_def split: option.splits)
      from handleGatewayMessage_authenticated [OF r, of b] a w1
      have "bridges w (ws_clientId (sockets w s)) = Some b \<and>
          property frame ''type'' = JStr ''res'' \<and> truthy (property frame ''ok'') \<and>
          opt_member (property frame ''payload'') ''type'' = JStr ''hello-ok''"
        by blast
      with WsMessage Inr show ?thesis by blast
    qed
  next
    case (WsError s)
    with a show ?thesis by (auto simp: on_error_def set_readyState_def)
  next
    case (WsClose s)
    with a on_close_authenticated [of s "set_readyState s CLOSED w" b] show ?thesis
      by (auto simp: set_readyState_def)
  next
    case (Advance d)
    with a show ?thesis by auto
  next
    case (TimerFire t)
    with a show ?thesis
      by (auto simp: reconnect_timer_def connectToGateway_authenticated Let_def split: if_splits)
  qed
next
  assume "fire (WsClose s) w = Some w2"
  then have w2: "w2 = on_close s (set_readyState s CLOSED w)" by simp
  have b: "ws_bridge (sockets (set_readyState s CLOSED w) s) = ws_bridge (sockets w s)"
    by (simp add: set_readyState_def)
  show "\<not> authenticated (heap w2 (ws_bridge (sockets w s)))"
    using on_close_resets(1) [of s "set_readyState s CLOSED w"] unfolding w2 b .
  show "ws (heap w2 (ws_bridge (sockets w s))) = None"
    using on_close_resets(2) [of s "set_readyState s CLOSED w"] unfolding w2 b .
next
  assume "fire (WsError s) w = Some w3"
  then show "heap w3 = heap w"
    by (auto simp: on_error_def set_readyState_def)
qed

theorem authenticated_flag_transitions_witness:
  "(\<exists>s frame. WsMessage 0 (Inr hello_ok) = WsMessage s (Inr frame) \<and>
       bridges open_world (ws_clientId (sockets open_world s)) = Some 0 \<and>
       property frame ''type'' = JStr ''res'' \<and> truthy (property frame ''ok'') \<and>
       opt_member (property frame ''payload'') ''type'' = JStr ''hello-ok'') \<and>
   \<not> authenticated (heap (after [WsClose 0] authenticated_world) 0) \<and>
   ws (heap (after [WsClose 0] authenticated_world) 0) = None \<and>
   heap (after [WsError 0] authenticated_world) = heap authenticated_world"
proof -
  have p1: "fire (WsMessage 0 (Inr hello_ok)) open_world = Some authenticated_world \<and>
      \<not> authenticated (heap open_world 0) \<and> authenticated (heap authenticated_world 0)"
    by (intro conjI witness_steps(1) open_world_facts(2) authenticated_world_facts(2))
  note c1 = authenticated_flag_transitions
      [where e = "WsMessage 0 (Inr hello_ok)" and w = open_world and ?w1.0 = authenticated_world
         and b = 0, THEN conjunct1, THEN mp, OF p1]
  note c2 = authenticated_flag_transitions
      [where w = authenticated_world and s = 0
         and ?w2.0 = "after [WsClose 0] authenticated_world",
       THEN conjunct2, THEN conjunct1, THEN mp, OF witness_steps(2), unfolded witness_steps(4)]
  note c3 = authenticated_flag_transitions
      [where w = authenticated_world and s = 0
         and ?w3.0 = "after [WsError 0] authenticated_world",
       THEN conjunct2, THEN conjunct2, THEN mp, OF witness_steps(3)]
  show ?thesis
    using c1 c2 c3 by blast
qed

section \<open>Closing and reconnecting\<close>

text \<open>
  \<^verbatim>\<open>closeBridge\<close> always returns; for a client without a bridge it changes nothing;
  it removes the entry of the client, so a second call changes nothing; the timer that
  the removed bridge records is no longer pending afterwards. The close handler of a
  transport arms one timer, due 5000 ms later, when a bridge is registered for the
  client of the transport, and records it in the bridge the transport was made for. The
  timer does nothing when it finds no bridge for its client.
\<close>

lemma closeBridge_returns: "\<exists>w'. closeBridge c w = Return w'"
  by (simp add: closeBridge_def Let_def split: option.splits)

lemma closeBridge_absent: "bridges w c = None \<Longrightarrow> closeBridge c w = Return w"
  by (simp add: closeBridge_def)

lemma closeBridge_removes: "bridges (state_of (closeBridge c w)) c = None"
  by (simp add: closeBridge_def state_of_def Let_def split: option.splits)

lemma closeBridge_idempotent:
  "closeBridge c (state_of (closeBridge c w)) = Return (state_of (closeBridge c w))"
  using closeBridge_removes [of c w] by (rule closeBridge_absent)

lemma closeBridge_clears_own_timer:
  assumes "bridges w c = Some b" and "reconnectTimeout (heap w b) = Some t"
  shows "t_state (timers (state_of (closeBridge c w)) t) \<noteq> Pending"
  using assms
  by (simp add: closeBridge_def state_of_def clearTimeout_def ws_close_def Let_def
      split: option.splits sum.splits ReadyState.splits)

lemma on_close_arms_one_timer:
  assumes "bridges w (ws_clientId (sockets w s)) \<noteq> None"
  shows "nextTimer (on_close s w) = Suc (nextTimer w)"
    and "timers (on_close s w) (nextTimer w) =
           \<lparr>t_clientId = ws_clientId (sockets w s), t_due = now w + 5000, t_state = Pending\<rparr>"
    and "reconnectTimeout (heap (on_close s w) (ws_bridge (sockets w s))) = Some (nextTimer w)"
    and "t \<noteq> nextTimer w \<Longrightarrow> timers (on_close s w) t = timers w t"
  using assms by (simp_all add: on_close_def update_bridge_def setTimeout_def Let_def)

lemma reconnect_timer_rechecks:
  "bridges w (t_clientId (timers w t)) = None \<Longrightarrow> reconnect_timer t w = w"
  by (simp add: reconnect_timer_def)

text \<open>
  When the session of a client is replaced, the close event of the old transport comes
  after the new bridge is registered. The handler finds a bridge for the client, arms a
  timer and records it in the old bridge object. If the new session is still there when
  the timer fires, \<^verbatim>\<open>connectToGateway\<close> gives its bridge a second transport while the first
  one is open.
\<close>

lemma orphan_timer_second_transport:
  "map_option (bridge_at 1)
     (run [CreateBridge ''c1'' 7, WsOpen 0, CreateBridge ''c1'' 8, WsOpen 1, WsClose 0,
           Advance 5000, TimerFire 0] example_world) =
     Some \<lparr>ws = Some 2, onMessage = 8, reconnectTimeout = None, authenticated = False,
           messageQueue = [], sessionKey = None\<rparr> \<and>
   map_option (transport_at 1)
     (run [CreateBridge ''c1'' 7, WsOpen 0, CreateBridge ''c1'' 8, WsOpen 1, WsClose 0,
           Advance 5000, TimerFire 0] example_world) =
     Some \<lparr>readyState = OPEN, ws_clientId = ''c1'', ws_bridge = 1\<rparr>"
  by (simp add: example_defs service_defs Let_def)

text \<open>
  C6, evaluated where the code departs from it. The session of c1 is replaced while its
  transport 0 is open, then the transport 0 closes: a bridge is registered for c1, so
  the timer 0 is armed, due at 5000, and recorded in the old bridge object 0, not in the
  registered bridge 1. \<^verbatim>\<open>closeBridge\<close>, called before the timer fires, does not cancel it:
  the timer is still pending.
\<close>

theorem orphan_timer_survives_closeBridge:
  "map_option (timer_at 0)
     (run [CreateBridge ''c1'' 7, WsOpen 0, CreateBridge ''c1'' 8, WsClose 0] example_world) =
     Some \<lparr>t_clientId = ''c1'', t_due = 5000, t_state = Pending\<rparr> \<and>
   map_option (bridge_at 0)
     (run [CreateBridge ''c1'' 7, WsOpen 0, CreateBridge ''c1'' 8, WsClose 0] example_world) =
     Some \<lparr>ws = None, onMessage = 7, reconnectTimeout = Some 0, authenticated = False,
           messageQueue = [], sessionKey = None\<rparr> \<and>
   map_option (bridge_at 1)
     (run [CreateBridge ''c1'' 7, WsOpen 0, CreateBridge ''c1'' 8, WsClose 0] example_world) =
     Some \<lparr>ws = Some 1, onMessage = 8, reconnectTimeout = None, authenticated = False,
           messageQueue = [], sessionKey = None\<rparr> \<and>
   map_option (timer_at 0)
     (run [CreateBridge ''c1'' 7, WsOpen 0, CreateBridge ''c1'' 8, WsClose 0, CloseBridge ''c1'']
        example_world) =
     Some \<lparr>t_clientId = ''c1'', t_due = 5000, t_state = Pending\<rparr>"
  by (simp add: example_defs service_defs Let_def)

text \<open>
  C5, evaluated where the code departs from it. In the same run, after the last
  \<^verbatim>\<open>closeBridge\<close> and 5000 ms, the timer 0 is enabled and fires.
\<close>

theorem timer_fires_after_final_closeBridge:
  "map_option (timer_at 0)
     (run [CreateBridge ''c1'' 7, WsOpen 0, CreateBridge ''c1'' 8, WsClose 0, CloseBridge ''c1'',
           Advance 5000, TimerFire 0] example_world) =
     Some \<lparr>t_clientId = ''c1'', t_due = 5000, t_state = Fired\<rparr>"
  by (simp add: example_defs service_defs Let_def)

section \<open>The loop of the handshake handler when the transport is not open\<close>





section \<open>The events of a client without a bridge\<close>

text \<open>
  While no bridge is registered for a client, the events of its transports and the
  timers armed for it invoke no callback, send nothing, register no bridge and make no
  transport: the handlers and the timer look the client up in the map first.
\<close>

lemma closed_client_transport_events:
  assumes "bridges w c = None" and "ws_clientId (sockets w s) = c"
    and "e = WsOpen s \<or> e = WsMessage s parsed \<or> e = WsError s \<or> e = WsClose s"
  shows "\<exists>w'. fire e w = Some w' \<and> effects w' = effects w \<and> bridges w' = bridges w \<and>
           nextSocket w' = nextSocket w \<and> nextTimer w' = nextTimer w"
  using assms
  by (auto simp: on_open_def on_message_def on_error_def on_close_def handleGatewayMessage_def
      update_bridge_def set_readyState_def state_of_def Let_def split: sum.splits)

lemma closed_client_timer:
  assumes "bridges w c = None" and "t_clientId (timers w t) = c"
  shows "\<exists>w'. fire (TimerFire t) w = Some w' \<and> effects w' = effects w \<and>
           bridges w' = bridges w \<and> nextSocket w' = nextSocket w \<and> heap w' = heap w"
  using assms by (simp add: reconnect_timer_def)

end
